theory Spec2Isabelle
  imports Complex_Main "HOL-Library.Multiset"
begin

section \<open>Numbers as the program sees them\<close>

text \<open>
  The tracker (\<^verbatim>\<open>src/app.py\<close>) computes on Python and pandas floating-point values.
  The model keeps the two features of those values that the program's branches and
  its printed output can observe and that exact reals do not have: the
  not-a-number value (\<^verbatim>\<open>pd.isna\<close>, \<^verbatim>\<open>fillna\<close>, the missing side of an outer join) and the
  sign of a zero (\<^verbatim>\<open>-5.0 * 0.0\<close> is \<^verbatim>\<open>-0.0\<close> and prints with its sign). Every other value
  is an exact real: rounding of the binary representation, overflow to infinity, and
  the wrap-around of the 64-bit integers pandas computes with in a column that holds
  nothing but integers are outside the model.
\<close>

datatype pyfloat = Num real | NegZero | NaN

text \<open>\<open>Num 0\<close> is \<^verbatim>\<open>0.0\<close>, \<open>NegZero\<close> is \<^verbatim>\<open>-0.0\<close>.\<close>

definition fl_val :: "pyfloat \<Rightarrow> real" where
  "fl_val x = (case x of Num r \<Rightarrow> r | NegZero \<Rightarrow> 0 | NaN \<Rightarrow> 0)"

definition isna :: "pyfloat \<Rightarrow> bool" where
  "isna x = (x = NaN)"

text \<open>\<^verbatim>\<open>x == 0\<close>: true of both zeros, false of NaN.\<close>

definition is_zero :: "pyfloat \<Rightarrow> bool" where
  "is_zero x = (x = Num 0 \<or> x = NegZero)"

text \<open>Truth value of a number in a condition (\<^verbatim>\<open>if x\<close>): NaN is true.\<close>

definition truthy :: "pyfloat \<Rightarrow> bool" where
  "truthy x = (\<not> is_zero x)"

text \<open>The sign bit.\<close>

definition negative :: "pyfloat \<Rightarrow> bool" where
  "negative x = (case x of Num r \<Rightarrow> r < 0 | NegZero \<Rightarrow> True | NaN \<Rightarrow> False)"

definition signed_zero :: "bool \<Rightarrow> pyfloat" where
  "signed_zero s = (if s then NegZero else Num 0)"

text \<open>\<^verbatim>\<open>x * y\<close>: a zero product carries the exclusive-or of the signs.\<close>

definition fmul :: "pyfloat \<Rightarrow> pyfloat \<Rightarrow> pyfloat" where
  "fmul x y =
     (if x = NaN \<or> y = NaN then NaN
      else let p = fl_val x * fl_val y
           in if p = 0 then signed_zero (negative x \<noteq> negative y) else Num p)"

text \<open>
  \<^verbatim>\<open>x / y\<close> for a divisor that is not a zero. A zero divisor is the caller's case: see
  \<open>py_truediv\<close>.
\<close>

definition fdiv :: "pyfloat \<Rightarrow> pyfloat \<Rightarrow> pyfloat" where
  "fdiv x y =
     (if x = NaN \<or> y = NaN then NaN
      else let q = fl_val x / fl_val y
           in if q = 0 then signed_zero (negative x \<noteq> negative y) else Num q)"

text \<open>\<^verbatim>\<open>x + y\<close>: a zero sum is \<^verbatim>\<open>-0.0\<close> only when both summands are.\<close>

definition fadd :: "pyfloat \<Rightarrow> pyfloat \<Rightarrow> pyfloat" where
  "fadd x y =
     (if x = NaN \<or> y = NaN then NaN
      else let s = fl_val x + fl_val y
           in if s = 0 then (if x = NegZero \<and> y = NegZero then NegZero else Num 0) else Num s)"

definition fneg :: "pyfloat \<Rightarrow> pyfloat" where
  "fneg x = (case x of Num r \<Rightarrow> (if r = 0 then NegZero else Num (- r)) | NegZero \<Rightarrow> Num 0 | NaN \<Rightarrow> NaN)"

definition fsub :: "pyfloat \<Rightarrow> pyfloat \<Rightarrow> pyfloat" where
  "fsub x y = fadd x (fneg y)"

definition fabs :: "pyfloat \<Rightarrow> pyfloat" where
  "fabs x = (case x of Num r \<Rightarrow> Num \<bar>r\<bar> | NegZero \<Rightarrow> Num 0 | NaN \<Rightarrow> NaN)"

text \<open>Comparisons: every comparison with NaN is false.\<close>

definition fge :: "pyfloat \<Rightarrow> pyfloat \<Rightarrow> bool" where
  "fge x y = (x \<noteq> NaN \<and> y \<noteq> NaN \<and> fl_val y \<le> fl_val x)"

definition flt :: "pyfloat \<Rightarrow> pyfloat \<Rightarrow> bool" where
  "flt x y = (x \<noteq> NaN \<and> y \<noteq> NaN \<and> fl_val x < fl_val y)"

datatype error = ZeroDivisionError

text \<open>Python's \<^verbatim>\<open>/\<close> on two numbers: a zero divisor raises.\<close>

definition py_truediv :: "pyfloat \<Rightarrow> pyfloat \<Rightarrow> error + pyfloat" where
  "py_truediv x y = (if is_zero y then Inl ZeroDivisionError else Inr (fdiv x y))"

text \<open>\<^verbatim>\<open>fillna(0)\<close> on one cell.\<close>

definition fillna0 :: "pyfloat \<Rightarrow> pyfloat" where
  "fillna0 x = (if isna x then Num 0 else x)"

subsection \<open>The format specification \<^verbatim>\<open>.2f\<close>\<close>

definition digit_char :: "nat \<Rightarrow> char" where
  "digit_char d = ''0123456789'' ! d"

fun decimal :: "nat \<Rightarrow> string" where
  "decimal n = (if n < 10 then [digit_char n] else decimal (n div 10) @ [digit_char (n mod 10)])"

declare decimal.simps [simp del]

definition round_half_even :: "real \<Rightarrow> int" where
  "round_half_even y =
     (let f = \<lfloor>y\<rfloor>; d = y - of_int f
      in if d < 1 / 2 then f else if 1 / 2 < d then f + 1 else if even f then f else f + 1)"

text \<open>
  Two digits after the point, the sign of the value first (also of a negative value that
  rounds to zero, and of \<^verbatim>\<open>-0.0\<close>); NaN prints as \<^verbatim>\<open>nan\<close>.
\<close>

definition fmt_2f :: "pyfloat \<Rightarrow> string" where
  "fmt_2f x =
     (case x of
        NaN \<Rightarrow> ''nan''
      | NegZero \<Rightarrow> ''-0.00''
      | Num r \<Rightarrow>
          (let n = nat (round_half_even (\<bar>r\<bar> * 100))
           in (if r < 0 then ''-'' else '''') @ decimal (n div 100) @ ''.'' @
              [digit_char (n mod 100 div 10), digit_char (n mod 10)]))"

section \<open>Exchange rates: \<^verbatim>\<open>TreasuryTracker.get_usd_fx_rates\<close>\<close>

type_synonym fx_table = "string \<rightharpoonup> real"

text \<open>
  What \<^verbatim>\<open>float(rates.get(k, 0))\<close> meets under a key of the fetched rates: a number, or a
  value \<^verbatim>\<open>float\<close> rejects by raising.
\<close>

datatype json_rate = Number real | Unparsable

record fx_payload =
  result :: "string option"
  rates :: "(string \<rightharpoonup> json_rate) option"

text \<open>
  The outcome of the request: it raised, or it returned a status code and a body; the
  body is \<open>None\<close> when \<^verbatim>\<open>resp.json()\<close> raises.
\<close>

datatype fx_response = RequestError | Response nat "fx_payload option"

text \<open>
  The part of the tracker object the rates live in: the cache entry under the key
  \<^verbatim>\<open>"usd_fx_rates"\<close> (a time stamp and a table) and the field \<^verbatim>\<open>fx_rates\<close>. The other
  methods write the cache under keys that start with \<^verbatim>\<open>treasury_\<close> or are
  \<^verbatim>\<open>exchange_rates\<close>, never under this one.
\<close>

record tracker =
  cache_usd_fx_rates :: "(real \<times> fx_table) option"
  fx_rates :: fx_table

definition cache_timeout :: real where
  "cache_timeout = 3600"

text \<open>\<^verbatim>\<open>TreasuryTracker.__init__\<close>\<close>

definition init_tracker :: tracker where
  "init_tracker = \<lparr>cache_usd_fx_rates = None, fx_rates = [''USD'' \<mapsto> 1]\<rparr>"

definition to_float :: "(string \<rightharpoonup> json_rate) \<Rightarrow> string \<Rightarrow> real option" where
  "to_float rs k = (case rs k of None \<Rightarrow> Some 0 | Some (Number r) \<Rightarrow> Some r | Some Unparsable \<Rightarrow> None)"

text \<open>The loop \<^verbatim>\<open>Ensure sane fallbacks\<close>, on one entry.\<close>

definition sane :: "string \<Rightarrow> real \<Rightarrow> real" where
  "sane k v = (if v = 0 then (if k = ''USD'' then 1 else 0) else v)"

text \<open>The dictionary \<^verbatim>\<open>normalized\<close>; \<open>None\<close> when a conversion raised.\<close>

definition normalized :: "(string \<rightharpoonup> json_rate) \<Rightarrow> fx_table option" where
  "normalized rs =
     (case (to_float rs ''EUR'', to_float rs ''GBP'', to_float rs ''JPY'',
            to_float rs ''CAD'', to_float rs ''AUD'') of
        (Some eur, Some gbp, Some jpy, Some cad, Some aud) \<Rightarrow>
          Some [''USD'' \<mapsto> sane ''USD'' 1, ''EUR'' \<mapsto> sane ''EUR'' eur,
                ''GBP'' \<mapsto> sane ''GBP'' gbp, ''JPY'' \<mapsto> sane ''JPY'' jpy,
                ''CAD'' \<mapsto> sane ''CAD'' cad, ''AUD'' \<mapsto> sane ''AUD'' aud]
      | _ \<Rightarrow> None)"

text \<open>The \<^verbatim>\<open>try\<close> block: \<open>Some\<close> table when it reaches its \<^verbatim>\<open>return\<close>.\<close>

definition fetched :: "fx_response \<Rightarrow> fx_table option" where
  "fetched resp =
     (case resp of
        RequestError \<Rightarrow> None
      | Response status body \<Rightarrow>
          (if status = 200 then
             (case body of
                None \<Rightarrow> None
              | Some payload \<Rightarrow>
                  (if result payload = Some ''success'' then
                     (case rates payload of None \<Rightarrow> None | Some rs \<Rightarrow> normalized rs)
                   else None))
           else None))"

definition fallback :: fx_table where
  "fallback = [''USD'' \<mapsto> 1, ''EUR'' \<mapsto> 0, ''GBP'' \<mapsto> 0, ''JPY'' \<mapsto> 0,
               ''CAD'' \<mapsto> 0, ''AUD'' \<mapsto> 0]"

text \<open>
  \<open>get_usd_fx_rates now resp s\<close>: the call at clock reading \<open>now\<close>, when the request (made
  only on a cache miss) would give \<open>resp\<close>. It returns the table and the tracker after
  the call.
\<close>

definition get_usd_fx_rates :: "real \<Rightarrow> fx_response \<Rightarrow> tracker \<Rightarrow> fx_table \<times> tracker" where
  "get_usd_fx_rates now resp s =
     (let miss =
            (case fetched resp of
               Some table \<Rightarrow> (table, \<lparr>cache_usd_fx_rates = Some (now, table), fx_rates = table\<rparr>)
             | None \<Rightarrow> (fallback, \<lparr>cache_usd_fx_rates = Some (now, fallback), fx_rates = fallback\<rparr>))
      in case cache_usd_fx_rates s of
           Some (cache_time, data) \<Rightarrow>
             (if now - cache_time < cache_timeout then (data, s\<lparr>fx_rates := data\<rparr>) else miss)
         | None \<Rightarrow> miss)"

text \<open>The trackers the program can be in: a fresh one, and any one after a call.\<close>

inductive reachable :: "tracker \<Rightarrow> bool" where
  fresh: "reachable init_tracker"
| called: "reachable s \<Longrightarrow> reachable (snd (get_usd_fx_rates now resp s))"

section \<open>Currency formatting: \<^verbatim>\<open>TreasuryTracker.format_currency\<close>\<close>

definition euro :: string where
  "euro = [CHR 0xE2, CHR 0x82, CHR 0xAC]"

definition pound :: string where
  "pound = [CHR 0xC2, CHR 0xA3]"

definition yen :: string where
  "yen = [CHR 0xC2, CHR 0xA5]"

text \<open>The strings are UTF-8: the three signs outside ASCII are their byte sequences.\<close>

definition symbol_map :: "string \<rightharpoonup> string" where
  "symbol_map = [''USD'' \<mapsto> ''$'', ''EUR'' \<mapsto> euro, ''GBP'' \<mapsto> pound, ''JPY'' \<mapsto> yen,
                 ''CAD'' \<mapsto> ''C$'', ''AUD'' \<mapsto> ''A$'']"

text \<open>\<^verbatim>\<open>symbol_map.get(currency, "$")\<close>\<close>

definition currency_symbol :: "string \<Rightarrow> string" where
  "currency_symbol currency = (case symbol_map currency of None \<Rightarrow> ''$'' | Some s \<Rightarrow> s)"

text \<open>
  The conversion step of \<^verbatim>\<open>format_currency\<close>:
  \<^verbatim>\<open>rate = self.fx_rates.get(currency, 1.0); converted = value_usd * rate\<close>.
\<close>

definition converted :: "fx_table \<Rightarrow> pyfloat \<Rightarrow> string \<Rightarrow> pyfloat" where
  "converted fx value_usd currency =
     (let rate = (case fx currency of None \<Rightarrow> 1 | Some r \<Rightarrow> r) in fmul value_usd (Num rate))"

definition format_currency :: "fx_table \<Rightarrow> pyfloat \<Rightarrow> string \<Rightarrow> string" where
  "format_currency fx value_usd currency =
     (if isna value_usd \<or> is_zero value_usd then currency_symbol currency @ ''0''
      else
        let c = converted fx value_usd currency;
            prefix = currency_symbol currency;
            abs_value = fabs c
        in if fge abs_value (Num 1000000000) then prefix @ fmt_2f (fdiv c (Num 1000000000)) @ ''B''
           else if fge abs_value (Num 1000000) then prefix @ fmt_2f (fdiv c (Num 1000000)) @ ''M''
           else if fge abs_value (Num 1000) then prefix @ fmt_2f (fdiv c (Num 1000)) @ ''K''
           else prefix @ fmt_2f c)"

section \<open>The payload of the treasury endpoint\<close>

text \<open>
  A payload is the decoded JSON document. A field is \<open>None\<close> when its key is not in
  the dictionary (the case \<^verbatim>\<open>.get(key, default)\<close> answers with its default). A field
  that is present holds a value of the JSON type the program computes with: a string
  for the three identity fields, a number for the others. A numeric key that is
  present and holds \<^verbatim>\<open>null\<close> is the subject of \<open>json_company\<close> further down; a value of
  another type is outside the model.
\<close>

record company =
  name :: "string option"
  symbol :: "string option"
  country :: "string option"
  total_holdings :: "real option"
  total_entry_value_usd :: "real option"
  total_current_value_usd :: "real option"
  percentage_of_total_supply :: "real option"

text \<open>
  \<^verbatim>\<open>data['total_holdings']\<close> comes in two shapes: a number, or a dictionary keyed by the
  asset's name.
\<close>

datatype holdings = Flat real | Nested "string \<rightharpoonup> real"

record payload =
  companies :: "company list option"
  data_total_holdings :: "holdings option"
  total_value_usd :: "real option"

definition dict_get :: "'a option \<Rightarrow> 'a \<Rightarrow> 'a" where
  "dict_get field dflt = (case field of None \<Rightarrow> dflt | Some v \<Rightarrow> v)"

section \<open>Normalisation: \<^verbatim>\<open>TreasuryTracker.process_treasury_data\<close>\<close>

text \<open>A row of the data frame built from the company dictionaries.\<close>

record df_row =
  Name :: string
  Symbol :: string
  Country :: string
  Total_Holdings :: pyfloat
  Entry_Value :: pyfloat
  Current_Value :: pyfloat
  Pct_of_Total_Supply :: pyfloat

text \<open>The same row with the columns \<^verbatim>\<open>PnL\<close> and \<^verbatim>\<open>PnL %\<close>.\<close>

record pnl_row = df_row +
  PnL :: pyfloat
  PnL_pct :: pyfloat

text \<open>The dictionary appended in the loop over \<^verbatim>\<open>data['companies']\<close>.\<close>

definition company_row :: "company \<Rightarrow> df_row" where
  "company_row c =
     \<lparr>Name = dict_get (name c) ''Unknown'',
      Symbol = dict_get (symbol c) ''N/A'',
      Country = dict_get (country c) ''Unknown'',
      Total_Holdings = Num (dict_get (total_holdings c) 0),
      Entry_Value = Num (dict_get (total_entry_value_usd c) 0),
      Current_Value = Num (dict_get (total_current_value_usd c) 0),
      Pct_of_Total_Supply = Num (dict_get (percentage_of_total_supply c) 0)\<rparr>"

text \<open>
  The function applied to each row for \<^verbatim>\<open>PnL %\<close>:
  \<^verbatim>\<open>((r['PnL'] / r['Entry Value']) * 100) if r['Entry Value'] and r['Entry Value'] != 0 else 0\<close>
\<close>

definition pnl_percent :: "pyfloat \<Rightarrow> pyfloat \<Rightarrow> error + pyfloat" where
  "pnl_percent pnl entry =
     (if truthy entry \<and> \<not> is_zero entry then
        (case py_truediv pnl entry of Inl e \<Rightarrow> Inl e | Inr q \<Rightarrow> Inr (fmul q (Num 100)))
      else Inr (Num 0))"

definition add_pnl :: "df_row \<Rightarrow> error + pnl_row" where
  "add_pnl r =
     (let pnl = fillna0 (fsub (Current_Value r) (Entry_Value r))
      in case pnl_percent pnl (Entry_Value r) of
           Inl e \<Rightarrow> Inl e
         | Inr pct \<Rightarrow>
             Inr \<lparr>Name = Name r, Symbol = Symbol r, Country = Country r,
                  Total_Holdings = Total_Holdings r, Entry_Value = Entry_Value r,
                  Current_Value = Current_Value r,
                  Pct_of_Total_Supply = Pct_of_Total_Supply r,
                  PnL = pnl, PnL_pct = pct\<rparr>)"

text \<open>A row-wise \<^verbatim>\<open>apply\<close> stops at the first row whose function raises.\<close>

fun collect :: "(error + 'a) list \<Rightarrow> error + 'a list" where
  "collect [] = Inr []"
| "collect (Inl e # xs) = Inl e"
| "collect (Inr v # xs) = (case collect xs of Inl e \<Rightarrow> Inl e | Inr vs \<Rightarrow> Inr (v # vs))"

text \<open>
  \<^verbatim>\<open>df.sort_values('Total Holdings', ascending=False)\<close> is pandas' work, not the
  repository's. The model takes what its documentation fixes: the rows come back
  permuted into descending order of the column, NaN last. The order of rows with equal
  holdings is decided by the sorting algorithm pandas uses (by default the one it
  calls \<^verbatim>\<open>quicksort\<close>, which it documents as not stable); the insertion below keeps
  them in input order, and no theorem of this development depends on that choice.
\<close>

definition before_desc :: "pyfloat \<Rightarrow> pyfloat \<Rightarrow> bool" where
  "before_desc a b = (b = NaN \<or> (a \<noteq> NaN \<and> fl_val b \<le> fl_val a))"

fun insert_desc :: "pnl_row \<Rightarrow> pnl_row list \<Rightarrow> pnl_row list" where
  "insert_desc x [] = [x]"
| "insert_desc x (y # ys) =
     (if before_desc (Total_Holdings x) (Total_Holdings y) then x # y # ys
      else y # insert_desc x ys)"

definition sort_values_desc :: "pnl_row list \<Rightarrow> pnl_row list" where
  "sort_values_desc rows = foldr insert_desc rows []"

text \<open>
  The data frame is a list of rows; the empty list is the empty frame, whether it
  comes from \<^verbatim>\<open>pd.DataFrame()\<close> or from an empty company list.
\<close>

definition process_treasury_data :: "payload option \<Rightarrow> error + pnl_row list" where
  "process_treasury_data data =
     (case data of
        None \<Rightarrow> Inr []
      | Some d \<Rightarrow>
          (case companies d of
             None \<Rightarrow> Inr []
           | Some cs \<Rightarrow>
               (let df = map company_row cs
                in if df = [] then Inr []
                   else (case collect (map add_pnl df) of
                           Inl e \<Rightarrow> Inl e
                         | Inr rows \<Rightarrow> Inr (sort_values_desc rows)))))"

section \<open>Supply dominance: \<^verbatim>\<open>display_bitcoin_data\<close>\<close>

text \<open>The local \<^verbatim>\<open>total_btc\<close>.\<close>

definition total_btc :: "holdings \<Rightarrow> real" where
  "total_btc h = (case h of Nested m \<Rightarrow> dict_get (m ''bitcoin'') 0 | Flat v \<Rightarrow> v)"

text \<open>\<^verbatim>\<open>c.get('percentage_of_total_supply', 0) or 0\<close>\<close>

definition reported_percent :: "company \<Rightarrow> real" where
  "reported_percent c =
     (let p = dict_get (percentage_of_total_supply c) 0 in if p \<noteq> 0 then p else 0)"

text \<open>
  The figure shown as \<^verbatim>\<open>Market Cap Dominance\<close>. It is computed inside
  \<^verbatim>\<open>if 'total_holdings' in data\<close>: \<open>None\<close> when the payload has no such key and the
  metric row is not drawn.
\<close>

definition dominance :: "payload \<Rightarrow> real option" where
  "dominance d =
     (case data_total_holdings d of
        None \<Rightarrow> None
      | Some h \<Rightarrow>
          (let cs = dict_get (companies d) []
           in if cs \<noteq> [] then Some (sum_list (map reported_percent cs))
              else if total_btc h \<noteq> 0 then Some (total_btc h / 21000000 * 100)
              else Some 0))"

text \<open>\<^verbatim>\<open>Series.sum()\<close>: NaN cells are skipped, the sum starts at \<^verbatim>\<open>0.0\<close>.\<close>

definition series_sum :: "pyfloat list \<Rightarrow> pyfloat" where
  "series_sum xs = foldl fadd (Num 0) (filter (\<lambda>x. \<not> isna x) xs)"

text \<open>Python's \<^verbatim>\<open>min(a, b)\<close> and \<^verbatim>\<open>max(a, b)\<close>: the first argument unless the second beats it.\<close>

definition py_min :: "pyfloat \<Rightarrow> pyfloat \<Rightarrow> pyfloat" where
  "py_min a b = (if flt b a then b else a)"

definition py_max :: "pyfloat \<Rightarrow> pyfloat \<Rightarrow> pyfloat" where
  "py_max a b = (if flt a b then b else a)"

text \<open>
  The donut chart's \<^verbatim>\<open>companies_share\<close>, drawn only when the processed frame is not
  empty (\<open>None\<close> otherwise). A frame with a row has the column
  \<^verbatim>\<open>% of Total Supply\<close>, so the conditional expression always takes the column's sum;
  its other branch is never evaluated.
\<close>

definition companies_share :: "payload \<Rightarrow> error + pyfloat option" where
  "companies_share d =
     (case process_treasury_data (Some d) of
        Inl e \<Rightarrow> Inl e
      | Inr df \<Rightarrow>
          (if df = [] then Inr None
           else Inr (Some (py_max (Num 0) (py_min (Num 100) (series_sum (map Pct_of_Total_Supply df)))))))"

section \<open>The combined view: \<^verbatim>\<open>display_combined_data\<close>\<close>

text \<open>A row of the outer join, before and after \<^verbatim>\<open>fillna(0)\<close>.\<close>

record merged_row =
  Company :: string
  Company_Symbol :: string
  Company_Country :: string
  BTC_Held :: pyfloat
  EntryUSD_BTC :: pyfloat
  CurrentUSD_BTC :: pyfloat
  ETH_Held :: pyfloat
  EntryUSD_ETH :: pyfloat
  CurrentUSD_ETH :: pyfloat

text \<open>
  The row with the totals of \<^verbatim>\<open>combined_df\<close> and the two per-company columns the
  display frame derives from them, as numbers (before they are formatted).
\<close>

record combined_row = merged_row +
  Total_Entry_Value :: pyfloat
  Total_Current_Value :: pyfloat
  Total_PnL :: pyfloat
  Company_PnL :: pyfloat
  Company_PnL_pct :: pyfloat

text \<open>The join key \<^verbatim>\<open>on=['Company','Symbol','Country']\<close>.\<close>

definition join_key :: "pnl_row \<Rightarrow> string \<times> string \<times> string" where
  "join_key r = (Name r, Symbol r, Country r)"

definition row_key :: "'a merged_row_scheme \<Rightarrow> string \<times> string \<times> string" where
  "row_key m = (Company m, Company_Symbol m, Company_Country m)"

definition both :: "pnl_row \<Rightarrow> pnl_row \<Rightarrow> merged_row" where
  "both l r =
     \<lparr>Company = Name l, Company_Symbol = Symbol l, Company_Country = Country l,
      BTC_Held = Total_Holdings l, EntryUSD_BTC = Entry_Value l, CurrentUSD_BTC = Current_Value l,
      ETH_Held = Total_Holdings r, EntryUSD_ETH = Entry_Value r, CurrentUSD_ETH = Current_Value r\<rparr>"

definition left_only :: "pnl_row \<Rightarrow> merged_row" where
  "left_only l =
     \<lparr>Company = Name l, Company_Symbol = Symbol l, Company_Country = Country l,
      BTC_Held = Total_Holdings l, EntryUSD_BTC = Entry_Value l, CurrentUSD_BTC = Current_Value l,
      ETH_Held = NaN, EntryUSD_ETH = NaN, CurrentUSD_ETH = NaN\<rparr>"

definition right_only :: "pnl_row \<Rightarrow> merged_row" where
  "right_only r =
     \<lparr>Company = Name r, Company_Symbol = Symbol r, Company_Country = Country r,
      BTC_Held = NaN, EntryUSD_BTC = NaN, CurrentUSD_BTC = NaN,
      ETH_Held = Total_Holdings r, EntryUSD_ETH = Entry_Value r, CurrentUSD_ETH = Current_Value r\<rparr>"

text \<open>
  \<^verbatim>\<open>pd.merge(left, right, on=..., how='outer')\<close> is pandas' work as well. Its rows are:
  one for every pair of a left and a right row with equal keys, one for every left row
  no right row matches, and one for every right row no left row matches, the columns
  of the missing side NaN. The order in which pandas returns them depends on its
  version; the theorems speak of the rows as a multiset or a set.
\<close>

definition matches :: "pnl_row \<Rightarrow> pnl_row list \<Rightarrow> pnl_row list" where
  "matches x ys = filter (\<lambda>y. join_key y = join_key x) ys"

definition merge_outer :: "pnl_row list \<Rightarrow> pnl_row list \<Rightarrow> merged_row list" where
  "merge_outer ls rs =
     concat (map (\<lambda>l. if matches l rs = [] then [left_only l] else map (both l) (matches l rs)) ls)
     @ map right_only (filter (\<lambda>r. matches r ls = []) rs)"

text \<open>\<^verbatim>\<open>.fillna(0)\<close> on the merged frame: every numeric column.\<close>

definition fillna_row :: "merged_row \<Rightarrow> merged_row" where
  "fillna_row m =
     m\<lparr>BTC_Held := fillna0 (BTC_Held m), EntryUSD_BTC := fillna0 (EntryUSD_BTC m),
       CurrentUSD_BTC := fillna0 (CurrentUSD_BTC m), ETH_Held := fillna0 (ETH_Held m),
       EntryUSD_ETH := fillna0 (EntryUSD_ETH m), CurrentUSD_ETH := fillna0 (CurrentUSD_ETH m)\<rparr>"

text \<open>
  The function applied to each row for \<^verbatim>\<open>Company PnL %\<close>:
  \<^verbatim>\<open>((r['Total Current Value'] - r['Total Entry Value']) / r['Total Entry Value'] * 100)
  if r['Total Entry Value'] and r['Total Entry Value'] != 0 else 0\<close>
\<close>

definition company_pnl_percent :: "pyfloat \<Rightarrow> pyfloat \<Rightarrow> error + pyfloat" where
  "company_pnl_percent total_current total_entry =
     (if truthy total_entry \<and> \<not> is_zero total_entry then
        (case py_truediv (fsub total_current total_entry) total_entry of
           Inl e \<Rightarrow> Inl e
         | Inr q \<Rightarrow> Inr (fmul q (Num 100)))
      else Inr (Num 0))"

definition add_totals :: "merged_row \<Rightarrow> error + combined_row" where
  "add_totals m =
     (let total_entry = fadd (EntryUSD_BTC m) (EntryUSD_ETH m);
          total_current = fadd (CurrentUSD_BTC m) (CurrentUSD_ETH m)
      in case company_pnl_percent total_current total_entry of
           Inl e \<Rightarrow> Inl e
         | Inr pct \<Rightarrow>
             Inr \<lparr>Company = Company m, Company_Symbol = Company_Symbol m,
                  Company_Country = Company_Country m,
                  BTC_Held = BTC_Held m, EntryUSD_BTC = EntryUSD_BTC m,
                  CurrentUSD_BTC = CurrentUSD_BTC m,
                  ETH_Held = ETH_Held m, EntryUSD_ETH = EntryUSD_ETH m,
                  CurrentUSD_ETH = CurrentUSD_ETH m,
                  Total_Entry_Value = total_entry, Total_Current_Value = total_current,
                  Total_PnL = fsub total_current total_entry,
                  Company_PnL = fsub total_current total_entry,
                  Company_PnL_pct = pct\<rparr>)"

text \<open>The combined frame of two processed frames (the first is the Bitcoin one).\<close>

definition combine :: "pnl_row list \<Rightarrow> pnl_row list \<Rightarrow> error + combined_row list" where
  "combine btc_df eth_df =
     (if btc_df \<noteq> [] \<or> eth_df \<noteq> [] then
        collect (map add_totals (map fillna_row (merge_outer btc_df eth_df)))
      else Inr [])"

text \<open>
  The table \<^verbatim>\<open>display_combined_data\<close> shows for two payloads; a payload is \<open>None\<close> when the
  fetch failed. When both frames are empty nothing is drawn: the empty list.
\<close>

definition display_combined_data :: "payload option \<Rightarrow> payload option \<Rightarrow> error + combined_row list" where
  "display_combined_data btc_data eth_data =
     (case process_treasury_data btc_data of
        Inl e \<Rightarrow> Inl e
      | Inr btc_df \<Rightarrow>
          (case process_treasury_data eth_data of
             Inl e \<Rightarrow> Inl e
           | Inr eth_df \<Rightarrow> combine btc_df eth_df))"

section \<open>Null values in the payload\<close>

text \<open>
  The value of a numeric key as \<^verbatim>\<open>response.json()\<close> returns it: a number, or \<^verbatim>\<open>None\<close> for
  the JSON value \<^verbatim>\<open>null\<close>.
\<close>

datatype json_number = JNumber real | JNull

text \<open>
  A company dictionary whose numeric keys may hold \<^verbatim>\<open>null\<close>. A field is \<open>None\<close> when its key
  is not in the dictionary, as in \<open>company\<close>.
\<close>

record json_company =
  name_json :: "string option"
  symbol_json :: "string option"
  country_json :: "string option"
  total_holdings_json :: "json_number option"
  total_entry_value_usd_json :: "json_number option"
  total_current_value_usd_json :: "json_number option"
  percentage_of_total_supply_json :: "json_number option"

text \<open>
  \<^verbatim>\<open>company.get(key, 0)\<close> as \<^verbatim>\<open>pd.DataFrame(companies)\<close> stores it in a column of floats:
  the default 0 for a missing key, the number for a number, and NaN for \<^verbatim>\<open>null\<close>
  (\<^verbatim>\<open>.get\<close> answers a key that is present with its value, here \<^verbatim>\<open>None\<close>, and pandas
  stores \<^verbatim>\<open>None\<close> among numbers as NaN).
\<close>

definition frame_cell :: "json_number option \<Rightarrow> pyfloat" where
  "frame_cell field =
     (case field of None \<Rightarrow> Num 0 | Some JNull \<Rightarrow> NaN | Some (JNumber v) \<Rightarrow> Num v)"

text \<open>
  A column is a column of floats when one of its values is not \<^verbatim>\<open>null\<close>; pandas keeps a
  column that holds nothing but \<^verbatim>\<open>None\<close> as a column of objects. \<open>frame_cell\<close> is the cell
  of a company list all of whose numeric columns are columns of floats.
\<close>

definition float_column :: "json_number option list \<Rightarrow> bool" where
  "float_column col = list_ex (\<lambda>v. v \<noteq> Some JNull) col"

definition float_columns :: "json_company list \<Rightarrow> bool" where
  "float_columns cs =
     (float_column (map total_holdings_json cs) \<and>
      float_column (map total_entry_value_usd_json cs) \<and>
      float_column (map total_current_value_usd_json cs) \<and>
      float_column (map percentage_of_total_supply_json cs))"

text \<open>The row of the data frame for such a company.\<close>

definition json_company_row :: "json_company \<Rightarrow> df_row" where
  "json_company_row c =
     \<lparr>Name = dict_get (name_json c) ''Unknown'',
      Symbol = dict_get (symbol_json c) ''N/A'',
      Country = dict_get (country_json c) ''Unknown'',
      Total_Holdings = frame_cell (total_holdings_json c),
      Entry_Value = frame_cell (total_entry_value_usd_json c),
      Current_Value = frame_cell (total_current_value_usd_json c),
      Pct_of_Total_Supply = frame_cell (percentage_of_total_supply_json c)\<rparr>"

text \<open>
  \<^verbatim>\<open>process_treasury_data\<close> from the data frame on: nothing is added to an empty frame;
  otherwise the columns \<^verbatim>\<open>PnL\<close> and \<^verbatim>\<open>PnL %\<close> are computed and the rows sorted.
\<close>

definition process_frame :: "df_row list \<Rightarrow> error + pnl_row list" where
  "process_frame df =
     (if df = [] then Inr []
      else (case collect (map add_pnl df) of
              Inl e \<Rightarrow> Inl e
            | Inr rows \<Rightarrow> Inr (sort_values_desc rows)))"

text \<open>\<^verbatim>\<open>process_treasury_data\<close> on a payload whose key \<^verbatim>\<open>companies\<close> holds such companies.\<close>

definition process_json_companies :: "json_company list \<Rightarrow> error + pnl_row list" where
  "process_json_companies cs = process_frame (map json_company_row cs)"

text \<open>A company all of whose numeric values are numbers, seen as one that could hold \<^verbatim>\<open>null\<close>.\<close>

definition json_of_company :: "company \<Rightarrow> json_company" where
  "json_of_company c =
     \<lparr>name_json = name c, symbol_json = symbol c, country_json = country c,
      total_holdings_json = map_option JNumber (total_holdings c),
      total_entry_value_usd_json = map_option JNumber (total_entry_value_usd c),
      total_current_value_usd_json = map_option JNumber (total_current_value_usd c),
      percentage_of_total_supply_json = map_option JNumber (percentage_of_total_supply c)\<rparr>"

section \<open>Predicates of the statements\<close>

text \<open>A string that ends in a point and two digits, after an optional sign and at least one digit.\<close>

definition is_digit :: "char \<Rightarrow> bool" where
  "is_digit ch = (ch \<in> set ''0123456789'')"

definition two_decimals :: "string \<Rightarrow> bool" where
  "two_decimals s =
     (case rev s of
        d2 # d1 # p # rest \<Rightarrow>
          is_digit d2 \<and> is_digit d1 \<and> p = CHR ''.'' \<and>
          (let ip = (if rest \<noteq> [] \<and> last rest = CHR ''-'' then butlast rest else rest)
           in ip \<noteq> [] \<and> list_all is_digit ip)
      | _ \<Rightarrow> False)"

text \<open>The invariant of the rates: the field and the cached table give the dollar the rate one.\<close>

definition usd_is_one :: "tracker \<Rightarrow> bool" where
  "usd_is_one s \<longleftrightarrow>
     fx_rates s ''USD'' = Some 1 \<and>
     (case cache_usd_fx_rates s of None \<Rightarrow> True | Some (t, d) \<Rightarrow> d ''USD'' = Some 1)"

text \<open>The seven columns a row of either frame carries from the payload.\<close>

definition columns :: "'a df_row_scheme \<Rightarrow> df_row" where
  "columns r =
     \<lparr>Name = Name r, Symbol = Symbol r, Country = Country r,
      Total_Holdings = Total_Holdings r, Entry_Value = Entry_Value r,
      Current_Value = Current_Value r, Pct_of_Total_Supply = Pct_of_Total_Supply r\<rparr>"

text \<open>A field of the payload that, when present, is not below zero.\<close>

definition non_negative :: "real option \<Rightarrow> bool" where
  "non_negative field = (case field of None \<Rightarrow> True | Some v \<Rightarrow> 0 \<le> v)"

text \<open>
  The supply dominance as claim C4 words it, for a company list and the asset's total
  quantity: the sum of the reported percentages when one of them is present and not
  zero, the share of the fixed maximum supply of 21,000,000 otherwise. It is the
  claim's reading, to be compared with \<open>dominance\<close>, which is the program's.
\<close>

definition supply_dominance_spec :: "company list \<Rightarrow> real \<Rightarrow> real" where
  "supply_dominance_spec cs total_quantity =
     (if list_ex (\<lambda>c. percentage_of_total_supply c \<noteq> None \<and>
                      percentage_of_total_supply c \<noteq> Some 0) cs
      then sum_list (map (\<lambda>c. dict_get (percentage_of_total_supply c) 0) cs)
      else total_quantity / 21000000 * 100)"

text \<open>A row with the columns of the two assets exchanged.\<close>

definition swap_assets :: "'a merged_row_scheme \<Rightarrow> 'a merged_row_scheme" where
  "swap_assets m =
     m\<lparr>BTC_Held := ETH_Held m, EntryUSD_BTC := EntryUSD_ETH m, CurrentUSD_BTC := CurrentUSD_ETH m,
       ETH_Held := BTC_Held m, EntryUSD_ETH := EntryUSD_BTC m, CurrentUSD_ETH := CurrentUSD_BTC m\<rparr>"

text \<open>The key of a combined row with the figures computed on both assets together.\<close>

definition combined_totals ::
  "combined_row \<Rightarrow> (string \<times> string \<times> string) \<times> pyfloat \<times> pyfloat \<times> pyfloat \<times> pyfloat \<times> pyfloat" where
  "combined_totals r =
     (row_key r, Total_Entry_Value r, Total_Current_Value r, Total_PnL r, Company_PnL r,
      Company_PnL_pct r)"

section \<open>Formatting\<close>

lemma is_digit_digit_char: "d < 10 \<Longrightarrow> is_digit (digit_char d)"
proof -
  assume "d < 10"
  then have "d \<in> {0,1,2,3,4,5,6,7,8,9}" by auto
  then show ?thesis by (auto simp: is_digit_def digit_char_def)
qed

lemma decimal_digits: "decimal n \<noteq> [] \<and> list_all is_digit (decimal n)"
proof (induction n rule: decimal.induct)
  case (1 n)
  show ?case
  proof (cases "n < 10")
    case True
    then show ?thesis by (subst decimal.simps, subst decimal.simps) (simp add: is_digit_digit_char)
  next
    case False
    with 1 show ?thesis
      by (subst decimal.simps, subst (2) decimal.simps) (simp add: is_digit_digit_char)
  qed
qed

lemma two_decimals_shape:
  assumes "a < 10" "b < 10" "sg = [] \<or> sg = ''-''"
  shows "two_decimals (sg @ decimal k @ ''.'' @ [digit_char a, digit_char b])"
proof -
  have d: "decimal k \<noteq> []" "list_all is_digit (decimal k)"
    using decimal_digits by auto
  have e: "is_digit (digit_char a)" "is_digit (digit_char b)"
    using assms by (auto intro!: is_digit_digit_char)
  have nm: "\<not> is_digit CHR ''-''" by (simp add: is_digit_def)
  have l: "last (rev (decimal k)) \<noteq> CHR ''-''"
    using d nm by (metis last_in_set list_all_iff rev_is_Nil_conv set_rev)
  from assms(3) show ?thesis
  proof
    assume "sg = []"
    with d e l show ?thesis
      by (auto simp: two_decimals_def Let_def list_all_iff)
  next
    assume "sg = ''-''"
    with d e show ?thesis
      by (auto simp: two_decimals_def Let_def list_all_iff)
  qed
qed

lemma two_decimals_fmt: "x \<noteq> NaN \<Longrightarrow> two_decimals (fmt_2f x)"
proof (cases x)
  case (Num r)
  have "two_decimals ((if r < 0 then ''-'' else []) @
          decimal (nat (round_half_even (\<bar>r\<bar> * 100)) div 100) @ ''.'' @
          [digit_char (nat (round_half_even (\<bar>r\<bar> * 100)) mod 100 div 10),
           digit_char (nat (round_half_even (\<bar>r\<bar> * 100)) mod 10)])"
    by (rule two_decimals_shape) (auto simp: div_less_iff_less_mult)
  with Num show ?thesis by (simp add: fmt_2f_def Let_def)
next
  case NegZero
  then show ?thesis by (simp add: fmt_2f_def two_decimals_def is_digit_def)
next
  case NaN
  assume "x \<noteq> NaN"
  with NaN show ?thesis by simp
qed

lemma fmul_not_nan: "x \<noteq> NaN \<Longrightarrow> fmul x (Num r) \<noteq> NaN"
  by (simp add: fmul_def Let_def signed_zero_def)

lemma fdiv_not_nan: "x \<noteq> NaN \<Longrightarrow> fdiv x (Num r) \<noteq> NaN"
  by (simp add: fdiv_def Let_def signed_zero_def)

lemma converted_not_nan: "v \<noteq> NaN \<Longrightarrow> converted fx v cur \<noteq> NaN"
  by (simp add: converted_def Let_def fmul_not_nan)

lemma fge_fabs: "c \<noteq> NaN \<Longrightarrow> fge (fabs c) (Num t) = (t \<le> \<bar>fl_val c\<bar>)"
  by (cases c) (simp_all add: fge_def fabs_def fl_val_def)

lemma fl_val_converted:
  "fl_val (converted fx v cur) = fl_val v * (case fx cur of None \<Rightarrow> 1 | Some r \<Rightarrow> r)"
  by (cases v) (auto simp: converted_def fmul_def Let_def signed_zero_def fl_val_def)

text \<open>
  Claim C8. \<^verbatim>\<open>format_currency\<close> on a value that is NaN or a zero gives the currency's
  symbol and \<^verbatim>\<open>0\<close>, nothing else. On any other value it converts (the value times the
  table's rate, the rate one for a currency the table does not have) and chooses the
  suffix by the magnitude \<open>m\<close> of the converted value: from \<^verbatim>\<open>1e9\<close> the value over
  \<^verbatim>\<open>1e9\<close> and \<^verbatim>\<open>B\<close>, from \<^verbatim>\<open>1e6\<close> the value over \<^verbatim>\<open>1e6\<close> and \<^verbatim>\<open>M\<close>, from \<^verbatim>\<open>1e3\<close> the value
  over \<^verbatim>\<open>1e3\<close> and \<^verbatim>\<open>K\<close>, below that the value itself; the number is printed with two
  decimals each time, after the currency's symbol. The symbol of a code outside the
  symbol map is the dollar sign.
\<close>

theorem format_currency_renders:
  "(isna v \<or> is_zero v \<longrightarrow> format_currency fx v cur = currency_symbol cur @ ''0'') \<and>
   (\<not> isna v \<and> \<not> is_zero v \<longrightarrow>
      (let c = converted fx v cur; m = \<bar>fl_val c\<bar>; p = currency_symbol cur
       in fl_val c = fl_val v * dict_get (fx cur) 1 \<and>
          (1000000000 \<le> m \<longrightarrow>
             format_currency fx v cur = p @ fmt_2f (fdiv c (Num 1000000000)) @ ''B'' \<and>
             two_decimals (fmt_2f (fdiv c (Num 1000000000)))) \<and>
          (1000000 \<le> m \<and> m < 1000000000 \<longrightarrow>
             format_currency fx v cur = p @ fmt_2f (fdiv c (Num 1000000)) @ ''M'' \<and>
             two_decimals (fmt_2f (fdiv c (Num 1000000)))) \<and>
          (1000 \<le> m \<and> m < 1000000 \<longrightarrow>
             format_currency fx v cur = p @ fmt_2f (fdiv c (Num 1000)) @ ''K'' \<and>
             two_decimals (fmt_2f (fdiv c (Num 1000)))) \<and>
          (m < 1000 \<longrightarrow>
             format_currency fx v cur = p @ fmt_2f c \<and> two_decimals (fmt_2f c)))) \<and>
   (symbol_map cur = None \<longrightarrow> currency_symbol cur = ''$'') \<and>
   currency_symbol ''USD'' = ''$'' \<and> currency_symbol ''EUR'' = euro \<and>
   currency_symbol ''GBP'' = pound \<and> currency_symbol ''JPY'' = yen \<and>
   currency_symbol ''CAD'' = ''C$'' \<and> currency_symbol ''AUD'' = ''A$''"
proof -
  have zero: "isna v \<or> is_zero v \<longrightarrow> format_currency fx v cur = currency_symbol cur @ ''0''"
    by (simp add: format_currency_def)
  have sym: "(symbol_map cur = None \<longrightarrow> currency_symbol cur = ''$'') \<and>
     currency_symbol ''USD'' = ''$'' \<and> currency_symbol ''EUR'' = euro \<and>
     currency_symbol ''GBP'' = pound \<and> currency_symbol ''JPY'' = yen \<and>
     currency_symbol ''CAD'' = ''C$'' \<and> currency_symbol ''AUD'' = ''A$''"
    by (simp add: currency_symbol_def symbol_map_def)
  have main: "\<not> isna v \<and> \<not> is_zero v \<longrightarrow>
      (let c = converted fx v cur; m = \<bar>fl_val c\<bar>; p = currency_symbol cur
       in fl_val c = fl_val v * dict_get (fx cur) 1 \<and>
          (1000000000 \<le> m \<longrightarrow>
             format_currency fx v cur = p @ fmt_2f (fdiv c (Num 1000000000)) @ ''B'' \<and>
             two_decimals (fmt_2f (fdiv c (Num 1000000000)))) \<and>
          (1000000 \<le> m \<and> m < 1000000000 \<longrightarrow>
             format_currency fx v cur = p @ fmt_2f (fdiv c (Num 1000000)) @ ''M'' \<and>
             two_decimals (fmt_2f (fdiv c (Num 1000000)))) \<and>
          (1000 \<le> m \<and> m < 1000000 \<longrightarrow>
             format_currency fx v cur = p @ fmt_2f (fdiv c (Num 1000)) @ ''K'' \<and>
             two_decimals (fmt_2f (fdiv c (Num 1000)))) \<and>
          (m < 1000 \<longrightarrow>
             format_currency fx v cur = p @ fmt_2f c \<and> two_decimals (fmt_2f c)))"
  proof
    assume a: "\<not> isna v \<and> \<not> is_zero v"
    then have nn: "converted fx v cur \<noteq> NaN"
      by (simp add: isna_def converted_not_nan)
    have td: "\<And>k. two_decimals (fmt_2f (fdiv (converted fx v cur) (Num k)))"
      by (rule two_decimals_fmt) (rule fdiv_not_nan [OF nn])
    show "let c = converted fx v cur; m = \<bar>fl_val c\<bar>; p = currency_symbol cur
       in fl_val c = fl_val v * dict_get (fx cur) 1 \<and>
          (1000000000 \<le> m \<longrightarrow>
             format_currency fx v cur = p @ fmt_2f (fdiv c (Num 1000000000)) @ ''B'' \<and>
             two_decimals (fmt_2f (fdiv c (Num 1000000000)))) \<and>
          (1000000 \<le> m \<and> m < 1000000000 \<longrightarrow>
             format_currency fx v cur = p @ fmt_2f (fdiv c (Num 1000000)) @ ''M'' \<and>
             two_decimals (fmt_2f (fdiv c (Num 1000000)))) \<and>
          (1000 \<le> m \<and> m < 1000000 \<longrightarrow>
             format_currency fx v cur = p @ fmt_2f (fdiv c (Num 1000)) @ ''K'' \<and>
             two_decimals (fmt_2f (fdiv c (Num 1000)))) \<and>
          (m < 1000 \<longrightarrow>
             format_currency fx v cur = p @ fmt_2f c \<and> two_decimals (fmt_2f c))"
      using a nn td two_decimals_fmt [OF nn]
      by (simp add: Let_def format_currency_def fge_fabs fl_val_converted dict_get_def)
  qed
  from zero main sym show ?thesis by blast
qed

text \<open>The four magnitudes, an unknown code, NaN and zero, evaluated.\<close>

theorem format_currency_renders_witness:
  "format_currency [''USD'' \<mapsto> 1] (Num 3200000000) ''USD'' = ''$3.20B'' \<and>
   format_currency [''USD'' \<mapsto> 1] (Num 50000000) ''USD'' = ''$50.00M'' \<and>
   format_currency [''USD'' \<mapsto> 1] (Num 1500) ''USD'' = ''$1.50K'' \<and>
   format_currency [''USD'' \<mapsto> 1] (Num 999) ''XYZ'' = ''$999.00'' \<and>
   format_currency [''USD'' \<mapsto> 1] NaN ''EUR'' = euro @ ''0'' \<and>
   format_currency [''USD'' \<mapsto> 1] (Num 0) ''CAD'' = ''C$0''"
  using format_currency_renders [of "Num 3200000000" "[''USD'' \<mapsto> 1]" "''USD''"]
    format_currency_renders [of "Num 50000000" "[''USD'' \<mapsto> 1]" "''USD''"]
    format_currency_renders [of "Num 1500" "[''USD'' \<mapsto> 1]" "''USD''"]
    format_currency_renders [of "Num 999" "[''USD'' \<mapsto> 1]" "''XYZ''"]
    format_currency_renders [of "NaN" "[''USD'' \<mapsto> 1]" "''EUR''"]
    format_currency_renders [of "Num 0" "[''USD'' \<mapsto> 1]" "''CAD''"]
  by (simp add: Let_def isna_def is_zero_def converted_def fmul_def fdiv_def fl_val_def
      signed_zero_def negative_def fmt_2f_def round_half_even_def decimal.simps digit_char_def
      symbol_map_def currency_symbol_def dict_get_def euro_def)

section \<open>Rates\<close>

lemma fmul_one: "fmul x (Num 1) = x"
  by (cases x) (simp_all add: fmul_def Let_def fl_val_def signed_zero_def negative_def)

lemma converted_usd: "fx ''USD'' = Some 1 \<Longrightarrow> converted fx x ''USD'' = x"
  by (simp add: converted_def fmul_one)

lemma normalized_usd: "normalized rs = Some t \<Longrightarrow> t ''USD'' = Some 1"
  by (auto simp: normalized_def sane_def split: option.splits)

lemma fetched_usd: "fetched resp = Some t \<Longrightarrow> t ''USD'' = Some 1"
  by (auto simp: fetched_def normalized_usd split: fx_response.splits option.splits if_splits)

lemma fallback_usd: "fallback ''USD'' = Some 1"
  by (simp add: fallback_def)

lemma usd_is_one_init: "usd_is_one init_tracker"
  by (simp add: usd_is_one_def init_tracker_def)

lemma usd_is_one_step:
  assumes "usd_is_one s"
  shows "usd_is_one (snd (get_usd_fx_rates now resp s)) \<and>
         fst (get_usd_fx_rates now resp s) ''USD'' = Some 1"
  using assms
  by (auto simp: usd_is_one_def get_usd_fx_rates_def Let_def fallback_usd
      dest: fetched_usd split: option.splits prod.splits)

lemma reachable_usd_is_one: "reachable s \<Longrightarrow> usd_is_one s"
  by (induction rule: reachable.induct) (simp_all add: usd_is_one_init usd_is_one_step)

text \<open>
  Claim C9. In every tracker the program can reach, the rate table in use gives the
  dollar the rate one; so does the table every further call of \<^verbatim>\<open>get_usd_fx_rates\<close>
  returns, the fallback table, and the table a successful fetch builds. Converting a
  value into dollars with such a table returns the value as it is.
\<close>

theorem usd_rate_is_one:
  assumes "reachable s"
  shows "fx_rates s ''USD'' = Some 1 \<and>
         fst (get_usd_fx_rates now resp s) ''USD'' = Some 1 \<and>
         fallback ''USD'' = Some 1 \<and>
         (case fetched resp of None \<Rightarrow> True | Some t \<Rightarrow> t ''USD'' = Some 1) \<and>
         converted (fx_rates s) x ''USD'' = x \<and>
         converted (fst (get_usd_fx_rates now resp s)) x ''USD'' = x"
proof -
  have i: "usd_is_one s" using assms by (rule reachable_usd_is_one)
  then have a: "fx_rates s ''USD'' = Some 1" by (simp add: usd_is_one_def)
  have b: "fst (get_usd_fx_rates now resp s) ''USD'' = Some 1"
    using usd_is_one_step [OF i] by simp
  have c: "case fetched resp of None \<Rightarrow> True | Some t \<Rightarrow> t ''USD'' = Some 1"
    by (simp add: fetched_usd split: option.splits)
  from a b c show ?thesis by (simp add: converted_usd fallback_usd)
qed

text \<open>The tracker after a failed request: reachable, the euro unavailable, the dollar one.\<close>

theorem usd_rate_is_one_witness:
  "reachable (snd (get_usd_fx_rates 10 RequestError init_tracker)) \<and>
   fx_rates (snd (get_usd_fx_rates 10 RequestError init_tracker)) ''EUR'' = Some 0 \<and>
   fx_rates (snd (get_usd_fx_rates 10 RequestError init_tracker)) ''USD'' = Some 1 \<and>
   converted (fx_rates (snd (get_usd_fx_rates 10 RequestError init_tracker))) (Num 1500) ''USD'' = Num 1500"
proof -
  have r: "reachable (snd (get_usd_fx_rates 10 RequestError init_tracker))"
    by (rule reachable.called) (rule reachable.fresh)
  have e: "fx_rates (snd (get_usd_fx_rates 10 RequestError init_tracker)) ''EUR'' = Some 0"
    by (simp add: get_usd_fx_rates_def init_tracker_def fetched_def fallback_def)
  from r e usd_rate_is_one [OF r, of 20 RequestError "Num 1500"] show ?thesis by simp
qed

lemma fmul_zero_rate:
  "v \<noteq> 0 \<Longrightarrow> fmul (Num v) (Num 0) = (if v < 0 then NegZero else Num 0)"
  by (simp add: fmul_def fl_val_def signed_zero_def negative_def)

lemma fmt_zero: "fmt_2f (Num 0) = ''0.00''"
  by (simp add: fmt_2f_def round_half_even_def decimal.simps digit_char_def)

text \<open>
  Claim C10, as amended. For a value that is neither NaN nor a zero and a currency whose
  rate in the table is zero, \<^verbatim>\<open>format_currency\<close> returns the symbol followed by
  \<^verbatim>\<open>0.00\<close> when the value is positive and by \<^verbatim>\<open>-0.00\<close> when it is negative (the product
  with the zero rate is a negative zero, which prints with its sign). Either way the
  result differs from the symbol followed by \<^verbatim>\<open>0\<close>, the rendering of no value.
\<close>

theorem unavailable_rate_renders_zero:
  assumes "v \<noteq> 0" and "fx cur = Some 0"
  shows "format_currency fx (Num v) cur =
           currency_symbol cur @ (if v < 0 then ''-0.00'' else ''0.00'') \<and>
         format_currency fx (Num v) cur \<noteq> currency_symbol cur @ ''0''"
proof -
  have c: "converted fx (Num v) cur = (if v < 0 then NegZero else Num 0)"
    using assms by (simp add: converted_def fmul_zero_rate)
  have "format_currency fx (Num v) cur = currency_symbol cur @ fmt_2f (converted fx (Num v) cur)"
    using assms(1) unfolding c
    by (simp add: format_currency_def Let_def isna_def is_zero_def c fabs_def fge_def fl_val_def)
  then show ?thesis
    unfolding c by (simp add: fmt_zero) (simp add: fmt_2f_def)
qed

text \<open>
  Claim C10 as stated fails for a loss: with the fallback table, minus five dollars in
  euros prints as the euro sign and \<^verbatim>\<open>-0.00\<close>, not as the euro sign and \<^verbatim>\<open>0.00\<close>.
\<close>

theorem unavailable_rate_counterexample:
  "fallback ''EUR'' = Some 0 \<and>
   format_currency fallback (Num (- 5)) ''EUR'' = euro @ ''-0.00'' \<and>
   format_currency fallback (Num (- 5)) ''EUR'' \<noteq> currency_symbol ''EUR'' @ ''0.00''"
  by (simp add: format_currency_def Let_def isna_def is_zero_def converted_def fmul_def fl_val_def
      signed_zero_def negative_def fabs_def fge_def fmt_2f_def fallback_def currency_symbol_def
      symbol_map_def euro_def)

text \<open>A gain and a loss in pounds under the fallback table.\<close>

theorem unavailable_rate_renders_zero_witness:
  "format_currency fallback (Num 1500) ''GBP'' = pound @ ''0.00'' \<and>
   format_currency fallback (Num (- 1500)) ''GBP'' = pound @ ''-0.00''"
  using unavailable_rate_renders_zero [of 1500 fallback "''GBP''"]
    unavailable_rate_renders_zero [of "- 1500" fallback "''GBP''"]
  by (simp add: fallback_def currency_symbol_def symbol_map_def)

section \<open>Arithmetic\<close>

lemma fl_val_Num [simp]: "fl_val (Num r) = r"
  by (simp add: fl_val_def)

lemma fsub_Num: "fsub (Num a) (Num b) = Num (a - b)"
  by (simp add: fsub_def fadd_def fneg_def fl_val_def Let_def)

lemma fadd_Num: "fadd (Num a) (Num b) = Num (a + b)"
  by (simp add: fadd_def fl_val_def Let_def)

lemma fl_val_fdiv_Num: "fl_val (fdiv (Num a) (Num b)) = a / b" "fdiv (Num a) (Num b) \<noteq> NaN"
  by (simp_all add: fdiv_def Let_def signed_zero_def fl_val_def)

lemma fl_val_fmul: "x \<noteq> NaN \<Longrightarrow> fl_val (fmul x (Num b)) = fl_val x * b"
  by (cases x) (simp_all add: fmul_def Let_def signed_zero_def fl_val_def)

lemma fmul_Num_not_nan: "x \<noteq> NaN \<Longrightarrow> fmul x (Num b) \<noteq> NaN"
  by (simp add: fmul_def Let_def signed_zero_def)

section \<open>Rows\<close>

lemma pnl_percent_total: "\<exists>p. pnl_percent pnl entry = Inr p"
  by (simp add: pnl_percent_def py_truediv_def truthy_def)

lemma pnl_percent_zero: "is_zero entry \<Longrightarrow> pnl_percent pnl entry = Inr (Num 0)"
  by (simp add: pnl_percent_def truthy_def)

lemma pnl_percent_Num:
  assumes "e \<noteq> 0" and "pnl_percent (Num p) (Num e) = Inr q"
  shows "fl_val q = p / e * 100 \<and> q \<noteq> NaN"
proof -
  from assms have "q = fmul (fdiv (Num p) (Num e)) (Num 100)"
    by (simp add: pnl_percent_def py_truediv_def truthy_def is_zero_def)
  then show ?thesis
    by (simp add: fl_val_fmul fl_val_fdiv_Num fmul_Num_not_nan)
qed

lemma add_pnl_total:
  "\<exists>r'. add_pnl r = Inr r' \<and> columns r' = r \<and>
        PnL r' = fillna0 (fsub (Current_Value r) (Entry_Value r)) \<and>
        pnl_percent (PnL r') (Entry_Value r) = Inr (PnL_pct r')"
proof -
  obtain p where "pnl_percent (fillna0 (fsub (Current_Value r) (Entry_Value r))) (Entry_Value r) = Inr p"
    using pnl_percent_total by blast
  then show ?thesis
    by (simp add: add_pnl_def Let_def columns_def)
qed

lemma add_pnl_columns: "add_pnl r = Inr r' \<Longrightarrow> columns r' = r"
  using add_pnl_total [of r] by auto

lemma collect_Inr: "collect (map f xs) = Inr ys \<longleftrightarrow> list_all2 (\<lambda>x y. f x = Inr y) xs ys"
proof (induction xs arbitrary: ys)
  case Nil
  then show ?case by auto
next
  case (Cons x xs)
  show ?case
  proof (cases "f x")
    case (Inl e)
    then show ?thesis by (auto simp: list_all2_Cons1)
  next
    case (Inr v)
    then have "collect (map f (x # xs)) = Inr ys \<longleftrightarrow>
        (\<exists>vs. collect (map f xs) = Inr vs \<and> ys = v # vs)"
      by (auto split: sum.splits)
    also have "\<dots> \<longleftrightarrow> (\<exists>vs. list_all2 (\<lambda>x y. f x = Inr y) xs vs \<and> ys = v # vs)"
      by (simp add: Cons.IH)
    also have "\<dots> \<longleftrightarrow> list_all2 (\<lambda>x y. f x = Inr y) (x # xs) ys"
      using Inr by (auto simp: list_all2_Cons1)
    finally show ?thesis .
  qed
qed

lemma collect_total:
  assumes "\<And>x. \<exists>y. f x = Inr y"
  shows "\<exists>ys. collect (map f xs) = Inr ys"
proof (induction xs)
  case Nil
  then show ?case by simp
next
  case (Cons x xs)
  obtain y where "f x = Inr y" using assms by blast
  with Cons show ?case by auto
qed

lemma mset_insert_desc: "mset (insert_desc x ys) = add_mset x (mset ys)"
  by (induction ys) auto

lemma mset_sort_values_desc: "mset (sort_values_desc rows) = mset rows"
  by (induction rows) (simp_all add: sort_values_desc_def mset_insert_desc)

lemma set_sort_values_desc: "set (sort_values_desc rows) = set rows"
  using mset_sort_values_desc by (metis set_mset_mset)

lemma length_sort_values_desc: "length (sort_values_desc rows) = length rows"
  using mset_sort_values_desc by (metis size_mset)

text \<open>The frame of a payload with a company list.\<close>

lemma process_companies:
  assumes "companies d = Some cs"
  shows "\<exists>rows. process_treasury_data (Some d) = Inr (sort_values_desc rows) \<and>
           list_all2 (\<lambda>c r. add_pnl (company_row c) = Inr r) cs rows"
proof (cases "cs = []")
  case True
  with assms show ?thesis
    by (simp add: process_treasury_data_def sort_values_desc_def)
next
  case False
  obtain rows where r: "collect (map add_pnl (map company_row cs)) = Inr rows"
    using collect_total [of add_pnl] add_pnl_total by blast
  then have "list_all2 (\<lambda>x y. add_pnl x = Inr y) (map company_row cs) rows"
    by (rule iffD1 [OF collect_Inr])
  then have "list_all2 (\<lambda>c r. add_pnl (company_row c) = Inr r) cs rows"
    by (simp add: list_all2_map1)
  with assms False r show ?thesis
    by (intro exI [of _ rows]) (simp add: process_treasury_data_def Let_def)
qed

lemma process_total: "\<exists>rows. process_treasury_data data = Inr rows"
proof (cases data)
  case None
  then show ?thesis by (simp add: process_treasury_data_def)
next
  case (Some d)
  show ?thesis
  proof (cases "companies d")
    case None
    with Some show ?thesis by (simp add: process_treasury_data_def)
  next
    case (Some cs)
    with \<open>data = Some d\<close> process_companies [OF Some] show ?thesis by auto
  qed
qed

lemma process_rows:
  assumes "companies d = Some cs" and "process_treasury_data (Some d) = Inr rows"
  shows "length rows = length cs"
    and "mset (map columns rows) = mset (map company_row cs)"
    and "\<And>r. r \<in> set rows \<Longrightarrow> \<exists>c\<in>set cs. add_pnl (company_row c) = Inr r"
    and "\<And>c. c \<in> set cs \<Longrightarrow> \<exists>r\<in>set rows. add_pnl (company_row c) = Inr r"
proof -
  obtain rows0 where s: "rows = sort_values_desc rows0"
    and l: "list_all2 (\<lambda>c r. add_pnl (company_row c) = Inr r) cs rows0"
    using process_companies [OF assms(1)] assms(2) by auto
  show "length rows = length cs"
    using s l by (simp add: length_sort_values_desc list_all2_lengthD)
  have "map columns rows0 = map company_row cs"
    using l by (induction cs rows0 rule: list_all2_induct) (simp_all add: add_pnl_columns)
  moreover have "mset (map columns rows) = mset (map columns rows0)"
    using s by (metis mset_map mset_sort_values_desc)
  ultimately show "mset (map columns rows) = mset (map company_row cs)" by simp
  show "\<exists>c\<in>set cs. add_pnl (company_row c) = Inr r" if "r \<in> set rows" for r
  proof -
    from that s have "r \<in> set rows0" by (simp add: set_sort_values_desc)
    then obtain i where "i < length rows0" "rows0 ! i = r" by (auto simp: in_set_conv_nth)
    with l have "i < length cs" "add_pnl (company_row (cs ! i)) = Inr r"
      by (auto simp: list_all2_conv_all_nth)
    then show ?thesis by (metis nth_mem)
  qed
  show "\<exists>r\<in>set rows. add_pnl (company_row c) = Inr r" if "c \<in> set cs" for c
  proof -
    from that obtain i where "i < length cs" "cs ! i = c" by (auto simp: in_set_conv_nth)
    with l have "i < length rows0" "add_pnl (company_row c) = Inr (rows0 ! i)"
      by (auto simp: list_all2_conv_all_nth)
    then have "rows0 ! i \<in> set rows" by (simp add: s set_sort_values_desc)
    with \<open>add_pnl (company_row c) = Inr (rows0 ! i)\<close> show ?thesis by blast
  qed
qed

lemma process_no_companies:
  "process_treasury_data None = Inr []"
  "companies d = None \<Longrightarrow> process_treasury_data (Some d) = Inr []"
  by (simp_all add: process_treasury_data_def)

lemma company_row_fields:
  "(name c = None \<longrightarrow> Name (company_row c) = ''Unknown'') \<and>
   (country c = None \<longrightarrow> Country (company_row c) = ''Unknown'') \<and>
   (symbol c = None \<longrightarrow> Symbol (company_row c) = ''N/A'') \<and>
   (total_holdings c = None \<longrightarrow> Total_Holdings (company_row c) = Num 0) \<and>
   (total_entry_value_usd c = None \<longrightarrow> Entry_Value (company_row c) = Num 0) \<and>
   (total_current_value_usd c = None \<longrightarrow> Current_Value (company_row c) = Num 0) \<and>
   (percentage_of_total_supply c = None \<longrightarrow> Pct_of_Total_Supply (company_row c) = Num 0) \<and>
   (\<forall>v. name c = Some v \<longrightarrow> Name (company_row c) = v) \<and>
   (\<forall>v. country c = Some v \<longrightarrow> Country (company_row c) = v) \<and>
   (\<forall>v. symbol c = Some v \<longrightarrow> Symbol (company_row c) = v) \<and>
   (\<forall>v. total_holdings c = Some v \<longrightarrow> Total_Holdings (company_row c) = Num v) \<and>
   (\<forall>v. total_entry_value_usd c = Some v \<longrightarrow> Entry_Value (company_row c) = Num v) \<and>
   (\<forall>v. total_current_value_usd c = Some v \<longrightarrow> Current_Value (company_row c) = Num v) \<and>
   (\<forall>v. percentage_of_total_supply c = Some v \<longrightarrow> Pct_of_Total_Supply (company_row c) = Num v)"
  by (simp add: company_row_def dict_get_def)

text \<open>
  Claim C3. A payload without a company list (no payload at all, or no key
  \<^verbatim>\<open>companies\<close>) gives the empty table, not an error. A payload with a company list
  gives, without an error, a table whose rows are, up to their order, the rows of its
  companies, one each. In the row of a company a missing name or country is
  \<^verbatim>\<open>Unknown\<close>, a missing symbol \<^verbatim>\<open>N/A\<close>, and missing holdings, entry value, current value
  and percentage of supply are zero; a field that is present is taken as it is.
\<close>

theorem normalization_defaults:
  "process_treasury_data None = Inr [] \<and>
   (companies d = None \<longrightarrow> process_treasury_data (Some d) = Inr []) \<and>
   (\<forall>cs. companies d = Some cs \<longrightarrow>
      (\<exists>rows. process_treasury_data (Some d) = Inr rows \<and>
              mset (map columns rows) = mset (map company_row cs))) \<and>
   (name c = None \<longrightarrow> Name (company_row c) = ''Unknown'') \<and>
   (country c = None \<longrightarrow> Country (company_row c) = ''Unknown'') \<and>
   (symbol c = None \<longrightarrow> Symbol (company_row c) = ''N/A'') \<and>
   (total_holdings c = None \<longrightarrow> Total_Holdings (company_row c) = Num 0) \<and>
   (total_entry_value_usd c = None \<longrightarrow> Entry_Value (company_row c) = Num 0) \<and>
   (total_current_value_usd c = None \<longrightarrow> Current_Value (company_row c) = Num 0) \<and>
   (percentage_of_total_supply c = None \<longrightarrow> Pct_of_Total_Supply (company_row c) = Num 0) \<and>
   (\<forall>v. name c = Some v \<longrightarrow> Name (company_row c) = v) \<and>
   (\<forall>v. country c = Some v \<longrightarrow> Country (company_row c) = v) \<and>
   (\<forall>v. symbol c = Some v \<longrightarrow> Symbol (company_row c) = v) \<and>
   (\<forall>v. total_holdings c = Some v \<longrightarrow> Total_Holdings (company_row c) = Num v) \<and>
   (\<forall>v. total_entry_value_usd c = Some v \<longrightarrow> Entry_Value (company_row c) = Num v) \<and>
   (\<forall>v. total_current_value_usd c = Some v \<longrightarrow> Current_Value (company_row c) = Num v) \<and>
   (\<forall>v. percentage_of_total_supply c = Some v \<longrightarrow> Pct_of_Total_Supply (company_row c) = Num v)"
proof -
  have a: "\<forall>cs. companies d = Some cs \<longrightarrow>
      (\<exists>rows. process_treasury_data (Some d) = Inr rows \<and>
              mset (map columns rows) = mset (map company_row cs))"
  proof (intro allI impI)
    fix cs
    assume c: "companies d = Some cs"
    obtain rows where r: "process_treasury_data (Some d) = Inr rows"
      using process_total by blast
    with process_rows(2) [OF c r] show "\<exists>rows. process_treasury_data (Some d) = Inr rows \<and>
              mset (map columns rows) = mset (map company_row cs)"
      by blast
  qed
  have b: "companies d = None \<longrightarrow> process_treasury_data (Some d) = Inr []"
    by (simp add: process_no_companies)
  from a b process_no_companies(1) company_row_fields [of c] show ?thesis
    by blast
qed

text \<open>A payload of one company with no field at all, and a payload without a list.\<close>

theorem normalization_defaults_witness:
  "process_treasury_data
     (Some \<lparr>companies =
              Some [\<lparr>name = None, symbol = None, country = None, total_holdings = None,
                     total_entry_value_usd = None, total_current_value_usd = None,
                     percentage_of_total_supply = None\<rparr>],
            data_total_holdings = None, total_value_usd = None\<rparr>) =
   Inr [\<lparr>Name = ''Unknown'', Symbol = ''N/A'', Country = ''Unknown'', Total_Holdings = Num 0,
         Entry_Value = Num 0, Current_Value = Num 0, Pct_of_Total_Supply = Num 0,
         PnL = Num 0, PnL_pct = Num 0\<rparr>] \<and>
   process_treasury_data
     (Some \<lparr>companies = None, data_total_holdings = Some (Flat 5), total_value_usd = None\<rparr>) =
   Inr []"
  using normalization_defaults
    [of "\<lparr>companies = None, data_total_holdings = Some (Flat 5), total_value_usd = None\<rparr>"
        "\<lparr>name = None, symbol = None, country = None, total_holdings = None,
          total_entry_value_usd = None, total_current_value_usd = None,
          percentage_of_total_supply = None\<rparr>"]
  by (simp add: process_treasury_data_def company_row_def dict_get_def add_pnl_def Let_def
      pnl_percent_def truthy_def is_zero_def fillna0_def isna_def fsub_def fadd_def fneg_def
      fl_val_def sort_values_desc_def)

lemma add_pnl_company_row:
  assumes "add_pnl (company_row c) = Inr r"
  shows "Total_Holdings r = Num (dict_get (total_holdings c) 0)"
    and "Entry_Value r = Num (dict_get (total_entry_value_usd c) 0)"
    and "Current_Value r = Num (dict_get (total_current_value_usd c) 0)"
    and "PnL r = Num (dict_get (total_current_value_usd c) 0 - dict_get (total_entry_value_usd c) 0)"
    and "pnl_percent (PnL r) (Entry_Value r) = Inr (PnL_pct r)"
proof -
  have c: "columns r = company_row c" using assms by (rule add_pnl_columns)
  from arg_cong [OF c, of Total_Holdings]
  show "Total_Holdings r = Num (dict_get (total_holdings c) 0)"
    by (simp add: columns_def company_row_def)
  from arg_cong [OF c, of Entry_Value]
  show e: "Entry_Value r = Num (dict_get (total_entry_value_usd c) 0)"
    by (simp add: columns_def company_row_def)
  from arg_cong [OF c, of Current_Value]
  show "Current_Value r = Num (dict_get (total_current_value_usd c) 0)"
    by (simp add: columns_def company_row_def)
  from add_pnl_total [of "company_row c"] assms
  have p: "PnL r = fillna0 (fsub (Current_Value (company_row c)) (Entry_Value (company_row c)))"
    and q: "pnl_percent (PnL r) (Entry_Value (company_row c)) = Inr (PnL_pct r)"
    by auto
  from p show "PnL r = Num (dict_get (total_current_value_usd c) 0 - dict_get (total_entry_value_usd c) 0)"
    by (simp add: company_row_def fsub_Num fillna0_def isna_def)
  from q e show "pnl_percent (PnL r) (Entry_Value r) = Inr (PnL_pct r)"
    by (simp add: company_row_def)
qed

text \<open>
  Claim C6, as amended. Normalisation takes the numbers of the payload as they are and
  puts zero where one is missing; it makes no value negative. So for a payload whose
  holdings, entry values and current values are non-negative wherever they are
  present, holdings, entry value and current value of every row of the table are
  non-negative numbers.
\<close>

theorem normalized_values_not_negative:
  assumes "companies d = Some cs"
    and "\<forall>c\<in>set cs. non_negative (total_holdings c) \<and> non_negative (total_entry_value_usd c) \<and>
           non_negative (total_current_value_usd c)"
  shows "\<exists>rows. process_treasury_data (Some d) = Inr rows \<and>
           (\<forall>r\<in>set rows. \<exists>h e v. Total_Holdings r = Num h \<and> 0 \<le> h \<and>
                                  Entry_Value r = Num e \<and> 0 \<le> e \<and>
                                  Current_Value r = Num v \<and> 0 \<le> v) \<and>
           (\<forall>c\<in>set cs. \<exists>r\<in>set rows. columns r = company_row c \<and>
              (total_holdings c = None \<longrightarrow> Total_Holdings r = Num 0) \<and>
              (total_entry_value_usd c = None \<longrightarrow> Entry_Value r = Num 0) \<and>
              (total_current_value_usd c = None \<longrightarrow> Current_Value r = Num 0))"
proof -
  obtain rows where r: "process_treasury_data (Some d) = Inr rows"
    using process_total by blast
  have nn: "0 \<le> dict_get field 0" if "non_negative field" for field
    using that by (cases field) (simp_all add: non_negative_def dict_get_def)
  have a: "\<exists>h e v. Total_Holdings x = Num h \<and> 0 \<le> h \<and> Entry_Value x = Num e \<and> 0 \<le> e \<and>
                   Current_Value x = Num v \<and> 0 \<le> v" if xin: "x \<in> set rows" for x
  proof -
    obtain c where c: "c \<in> set cs" "add_pnl (company_row c) = Inr x"
      using process_rows(3) [OF assms(1) r xin] by blast
    with assms(2) have "0 \<le> dict_get (total_holdings c) 0"
      "0 \<le> dict_get (total_entry_value_usd c) 0" "0 \<le> dict_get (total_current_value_usd c) 0"
      by (auto intro: nn)
    with add_pnl_company_row(1-3) [OF c(2)] show ?thesis by blast
  qed
  have b: "\<exists>x\<in>set rows. columns x = company_row c \<and>
              (total_holdings c = None \<longrightarrow> Total_Holdings x = Num 0) \<and>
              (total_entry_value_usd c = None \<longrightarrow> Entry_Value x = Num 0) \<and>
              (total_current_value_usd c = None \<longrightarrow> Current_Value x = Num 0)" if cin: "c \<in> set cs" for c
  proof -
    obtain x where x: "x \<in> set rows" "add_pnl (company_row c) = Inr x"
      using process_rows(4) [OF assms(1) r cin] by blast
    from add_pnl_company_row(1-3) [OF x(2)] add_pnl_columns [OF x(2)] x(1)
    show ?thesis by (auto simp: dict_get_def)
  qed
  from r a b show ?thesis by blast
qed

text \<open>
  Claim C6 as stated fails on a payload that reports a negative number: the holdings
  of minus five come out of normalisation as minus five.
\<close>

theorem normalized_values_counterexample:
  "process_treasury_data
     (Some \<lparr>companies =
              Some [\<lparr>name = Some ''A'', symbol = Some ''AAA'', country = Some ''US'',
                     total_holdings = Some (- 5), total_entry_value_usd = Some 10,
                     total_current_value_usd = Some 20,
                     percentage_of_total_supply = Some 0\<rparr>],
            data_total_holdings = None, total_value_usd = None\<rparr>) =
   Inr [\<lparr>Name = ''A'', Symbol = ''AAA'', Country = ''US'', Total_Holdings = Num (- 5),
         Entry_Value = Num 10, Current_Value = Num 20, Pct_of_Total_Supply = Num 0,
         PnL = Num 10, PnL_pct = Num 100\<rparr>] \<and>
   flt (Num (- 5)) (Num 0)"
  by (simp add: process_treasury_data_def company_row_def dict_get_def add_pnl_def Let_def
      pnl_percent_def py_truediv_def truthy_def is_zero_def fillna0_def isna_def fsub_def
      fadd_def fneg_def fdiv_def fmul_def fl_val_def flt_def sort_values_desc_def)

text \<open>The two companies of the specification's example, whose values are not negative.\<close>

theorem normalized_values_not_negative_witness:
  "process_treasury_data
     (Some \<lparr>companies =
              Some [\<lparr>name = Some ''B'', symbol = None, country = None,
                     total_holdings = Some 500, total_entry_value_usd = Some 20000000,
                     total_current_value_usd = Some 10000000,
                     percentage_of_total_supply = None\<rparr>,
                    \<lparr>name = Some ''A'', symbol = None, country = None,
                     total_holdings = Some 1000, total_entry_value_usd = Some 30000000,
                     total_current_value_usd = Some 50000000,
                     percentage_of_total_supply = None\<rparr>],
            data_total_holdings = None, total_value_usd = None\<rparr>) =
   Inr [\<lparr>Name = ''A'', Symbol = ''N/A'', Country = ''Unknown'', Total_Holdings = Num 1000,
         Entry_Value = Num 30000000, Current_Value = Num 50000000, Pct_of_Total_Supply = Num 0,
         PnL = Num 20000000, PnL_pct = Num (200 / 3)\<rparr>,
        \<lparr>Name = ''B'', Symbol = ''N/A'', Country = ''Unknown'', Total_Holdings = Num 500,
         Entry_Value = Num 20000000, Current_Value = Num 10000000, Pct_of_Total_Supply = Num 0,
         PnL = Num (- 10000000), PnL_pct = Num (- 50)\<rparr>]"
  using normalized_values_not_negative
    [of "\<lparr>companies =
              Some [\<lparr>name = Some ''B'', symbol = None, country = None,
                     total_holdings = Some 500, total_entry_value_usd = Some 20000000,
                     total_current_value_usd = Some 10000000,
                     percentage_of_total_supply = None\<rparr>,
                    \<lparr>name = Some ''A'', symbol = None, country = None,
                     total_holdings = Some 1000, total_entry_value_usd = Some 30000000,
                     total_current_value_usd = Some 50000000,
                     percentage_of_total_supply = None\<rparr>],
            data_total_holdings = None, total_value_usd = None\<rparr>"
        "[\<lparr>name = Some ''B'', symbol = None, country = None,
                     total_holdings = Some 500, total_entry_value_usd = Some 20000000,
                     total_current_value_usd = Some 10000000,
                     percentage_of_total_supply = None\<rparr>,
                    \<lparr>name = Some ''A'', symbol = None, country = None,
                     total_holdings = Some 1000, total_entry_value_usd = Some 30000000,
                     total_current_value_usd = Some 50000000,
                     percentage_of_total_supply = None\<rparr>]"]
  by (simp add: process_treasury_data_def company_row_def dict_get_def add_pnl_def Let_def
      pnl_percent_def py_truediv_def truthy_def is_zero_def fillna0_def isna_def fsub_def
      fadd_def fneg_def fdiv_def fmul_def fl_val_def sort_values_desc_def before_desc_def
      non_negative_def)

section \<open>Dominance\<close>

lemma reported_percent_eq: "reported_percent c = dict_get (percentage_of_total_supply c) 0"
  by (simp add: reported_percent_def Let_def)

lemma series_sum_Num: "series_sum (map Num xs) = Num (sum_list xs)"
proof -
  have "foldl fadd (Num a) (map Num xs) = Num (a + sum_list xs)" for a
    by (induction xs arbitrary: a) (simp_all add: fadd_Num add.assoc)
  from this [of 0] show ?thesis
    by (simp add: series_sum_def isna_def)
qed

lemma clamp_range:
  "py_max (Num 0) (py_min (Num 100) (Num v)) = Num (max 0 (min 100 v))"
  by (simp add: py_max_def py_min_def flt_def max_def min_def)

lemma pct_column:
  assumes "companies d = Some cs" and "process_treasury_data (Some d) = Inr rows"
  shows "\<exists>ps. map Pct_of_Total_Supply rows = map Num ps \<and>
              sum_list ps = sum_list (map (\<lambda>c. dict_get (percentage_of_total_supply c) 0) cs)"
proof -
  let ?p = "\<lambda>r. fl_val (Pct_of_Total_Supply r)"
  have num: "Pct_of_Total_Supply r = Num (?p r)" if rin: "r \<in> set rows" for r
  proof -
    obtain c where "add_pnl (company_row c) = Inr r"
      using process_rows(3) [OF assms rin] by blast
    then have "columns r = company_row c" by (rule add_pnl_columns)
    from arg_cong [OF this, of Pct_of_Total_Supply] show ?thesis
      by (simp add: columns_def company_row_def)
  qed
  then have a: "map Pct_of_Total_Supply rows = map Num (map ?p rows)"
    by simp
  have "sum_list (map ?p rows) = sum_mset (image_mset ?p (mset rows))"
    by (simp add: sum_mset_sum_list [symmetric])
  also have "image_mset ?p (mset rows) =
      image_mset (\<lambda>r. fl_val (Pct_of_Total_Supply r)) (mset (map columns rows))"
    by (simp add: image_mset.compositionality comp_def columns_def)
  also have "mset (map columns rows) = mset (map company_row cs)"
    by (rule process_rows(2) [OF assms])
  also have "sum_mset (image_mset (\<lambda>r. fl_val (Pct_of_Total_Supply r)) (mset (map company_row cs)))
      = sum_list (map (\<lambda>c. dict_get (percentage_of_total_supply c) 0) cs)"
    by (simp add: sum_mset_sum_list [symmetric] image_mset.compositionality comp_def company_row_def)
  finally show ?thesis using a by blast
qed

lemma companies_share_clamped:
  assumes "companies d = Some cs" and "cs \<noteq> []"
  shows "companies_share d =
           Inr (Some (Num (max 0 (min 100
             (sum_list (map (\<lambda>c. dict_get (percentage_of_total_supply c) 0) cs))))))"
proof -
  obtain rows where r: "process_treasury_data (Some d) = Inr rows"
    using process_total by blast
  from process_rows(1) [OF assms(1) r] assms(2) have ne: "rows \<noteq> []" by auto
  obtain ps where "map Pct_of_Total_Supply rows = map Num ps"
    "sum_list ps = sum_list (map (\<lambda>c. dict_get (percentage_of_total_supply c) 0) cs)"
    using pct_column [OF assms(1) r] by blast
  with r ne show ?thesis
    by (simp add: companies_share_def series_sum_Num clamp_range)
qed

lemma companies_share_none:
  assumes "companies d = None \<or> companies d = Some []"
  shows "companies_share d = Inr None"
  using assms by (auto simp: companies_share_def process_treasury_data_def)

text \<open>
  Claim C4, as amended. Where the payload has the key \<^verbatim>\<open>total_holdings\<close>, the dominance
  figure is the sum of the companies' reported percentages (a missing one counts as
  zero) whenever the company list is not empty, also when no company reports a
  percentage other than zero; it is the total holdings over 21,000,000 times 100 only
  when the company list is empty or missing. So it is the figure of the claim
  whenever a company reports a percentage other than zero, and whenever the list is
  empty. The share drawn in the donut chart is the sum of the table's percentage
  column, cut to the range from 0 to 100.
\<close>

theorem dominance_sums_reported_percentages:
  assumes "data_total_holdings d = Some h" and "cs = dict_get (companies d) []"
  shows "(cs \<noteq> [] \<longrightarrow>
            dominance d = Some (sum_list (map (\<lambda>c. dict_get (percentage_of_total_supply c) 0) cs))) \<and>
         (cs = [] \<longrightarrow> dominance d = Some (total_btc h / 21000000 * 100)) \<and>
         (list_ex (\<lambda>c. percentage_of_total_supply c \<noteq> None \<and>
                       percentage_of_total_supply c \<noteq> Some 0) cs \<or> cs = [] \<longrightarrow>
            dominance d = Some (supply_dominance_spec cs (total_btc h))) \<and>
         (cs \<noteq> [] \<longrightarrow>
            companies_share d =
              Inr (Some (Num (max 0 (min 100
                (sum_list (map (\<lambda>c. dict_get (percentage_of_total_supply c) 0) cs))))))) \<and>
         (cs = [] \<longrightarrow> companies_share d = Inr None) \<and>
         0 \<le> max 0 (min 100 (sum_list (map (\<lambda>c. dict_get (percentage_of_total_supply c) 0) cs))) \<and>
         max 0 (min 100 (sum_list (map (\<lambda>c. dict_get (percentage_of_total_supply c) 0) cs))) \<le> 100"
proof -
  have rp: "map reported_percent xs = map (\<lambda>c. dict_get (percentage_of_total_supply c) 0) xs" for xs
    by (simp add: reported_percent_eq)
  have a: "cs \<noteq> [] \<longrightarrow>
      dominance d = Some (sum_list (map (\<lambda>c. dict_get (percentage_of_total_supply c) 0) cs))"
    using assms by (simp add: dominance_def Let_def rp)
  have b: "cs = [] \<longrightarrow> dominance d = Some (total_btc h / 21000000 * 100)"
    using assms by (simp add: dominance_def Let_def)
  have c: "list_ex (\<lambda>c. percentage_of_total_supply c \<noteq> None \<and>
                       percentage_of_total_supply c \<noteq> Some 0) cs \<or> cs = [] \<longrightarrow>
            dominance d = Some (supply_dominance_spec cs (total_btc h))"
    using a b by (auto simp: supply_dominance_spec_def)
  have e: "cs \<noteq> [] \<longrightarrow>
            companies_share d =
              Inr (Some (Num (max 0 (min 100
                (sum_list (map (\<lambda>c. dict_get (percentage_of_total_supply c) 0) cs))))))"
  proof
    assume ne: "cs \<noteq> []"
    with assms(2) have "companies d = Some cs"
      by (cases "companies d") (simp_all add: dict_get_def)
    from companies_share_clamped [OF this ne] show "companies_share d =
              Inr (Some (Num (max 0 (min 100
                (sum_list (map (\<lambda>c. dict_get (percentage_of_total_supply c) 0) cs))))))" .
  qed
  have f: "cs = [] \<longrightarrow> companies_share d = Inr None"
  proof
    assume "cs = []"
    with assms(2) have "companies d = None \<or> companies d = Some []"
      by (cases "companies d") (simp_all add: dict_get_def)
    then show "companies_share d = Inr None" by (rule companies_share_none)
  qed
  from a b c e f show ?thesis by simp
qed

text \<open>
  Claim C4 as stated fails when the list has a company and no percentage is reported:
  for total holdings of 10,500,000 held by one company without a percentage the
  program shows the dominance 0, the claim's fallback gives 50.
\<close>

theorem dominance_counterexample:
  "dominance
     \<lparr>companies =
        Some [\<lparr>name = Some ''A'', symbol = Some ''AAA'', country = Some ''US'',
               total_holdings = Some 10500000, total_entry_value_usd = Some 0,
               total_current_value_usd = Some 0, percentage_of_total_supply = None\<rparr>],
      data_total_holdings = Some (Flat 10500000), total_value_usd = None\<rparr> = Some 0 \<and>
   supply_dominance_spec
     [\<lparr>name = Some ''A'', symbol = Some ''AAA'', country = Some ''US'',
       total_holdings = Some 10500000, total_entry_value_usd = Some 0,
       total_current_value_usd = Some 0, percentage_of_total_supply = None\<rparr>]
     (total_btc (Flat 10500000)) = 50"
  by (simp add: dominance_def supply_dominance_spec_def total_btc_def dict_get_def
      reported_percent_def Let_def)

text \<open>Two companies that report three and four and a half per cent, and a nested total.\<close>

theorem dominance_sums_reported_percentages_witness:
  "dominance
     \<lparr>companies =
        Some [\<lparr>name = Some ''A'', symbol = None, country = None,
               total_holdings = Some 10, total_entry_value_usd = None,
               total_current_value_usd = None, percentage_of_total_supply = Some 3\<rparr>,
              \<lparr>name = Some ''B'', symbol = None, country = None,
               total_holdings = Some 20, total_entry_value_usd = None,
               total_current_value_usd = None, percentage_of_total_supply = Some (9 / 2)\<rparr>],
      data_total_holdings = Some (Nested [''bitcoin'' \<mapsto> 30]), total_value_usd = None\<rparr> =
     Some (15 / 2) \<and>
   companies_share
     \<lparr>companies =
        Some [\<lparr>name = Some ''A'', symbol = None, country = None,
               total_holdings = Some 10, total_entry_value_usd = None,
               total_current_value_usd = None, percentage_of_total_supply = Some 3\<rparr>,
              \<lparr>name = Some ''B'', symbol = None, country = None,
               total_holdings = Some 20, total_entry_value_usd = None,
               total_current_value_usd = None, percentage_of_total_supply = Some (9 / 2)\<rparr>],
      data_total_holdings = Some (Nested [''bitcoin'' \<mapsto> 30]), total_value_usd = None\<rparr> =
     Inr (Some (Num (15 / 2)))"
  using dominance_sums_reported_percentages
    [of "\<lparr>companies =
        Some [\<lparr>name = Some ''A'', symbol = None, country = None,
               total_holdings = Some 10, total_entry_value_usd = None,
               total_current_value_usd = None, percentage_of_total_supply = Some 3\<rparr>,
              \<lparr>name = Some ''B'', symbol = None, country = None,
               total_holdings = Some 20, total_entry_value_usd = None,
               total_current_value_usd = None, percentage_of_total_supply = Some (9 / 2)\<rparr>],
      data_total_holdings = Some (Nested [''bitcoin'' \<mapsto> 30]), total_value_usd = None\<rparr>"
      "Nested [''bitcoin'' \<mapsto> 30]"
      "[\<lparr>name = Some ''A'', symbol = None, country = None,
               total_holdings = Some 10, total_entry_value_usd = None,
               total_current_value_usd = None, percentage_of_total_supply = Some 3\<rparr>,
              \<lparr>name = Some ''B'', symbol = None, country = None,
               total_holdings = Some 20, total_entry_value_usd = None,
               total_current_value_usd = None, percentage_of_total_supply = Some (9 / 2)\<rparr>]"]
  by (simp add: dict_get_def)

section \<open>The outer join\<close>

lemma fadd_commute: "fadd x y = fadd y x"
  by (auto simp: fadd_def Let_def add.commute)

lemma mset_concat_if:
  "mset (concat (map (\<lambda>x. if P x then [f x] else g x) xs)) =
     mset (map f (filter P xs)) + mset (concat (map g (filter (\<lambda>x. \<not> P x) xs)))"
  by (induction xs) auto

lemma concat_matches_filter:
  "concat (map (\<lambda>l. map (h l) (matches l rs)) (filter (\<lambda>l. matches l rs \<noteq> []) ls)) =
   concat (map (\<lambda>l. map (h l) (matches l rs)) ls)"
  by (induction ls) auto

text \<open>The rows of the join, as a multiset: the pairs, the left rows alone, the right rows alone.\<close>

lemma mset_merge_outer:
  "mset (merge_outer ls rs) =
     mset (concat (map (\<lambda>l. map (both l) (matches l rs)) ls)) +
     mset (map left_only (filter (\<lambda>l. matches l rs = []) ls)) +
     mset (map right_only (filter (\<lambda>r. matches r ls = []) rs))"
proof -
  have "mset (concat (map (\<lambda>l. if matches l rs = [] then [left_only l]
                               else map (both l) (matches l rs)) ls)) =
        mset (map left_only (filter (\<lambda>l. matches l rs = []) ls)) +
        mset (concat (map (\<lambda>l. map (both l) (matches l rs)) (filter (\<lambda>l. matches l rs \<noteq> []) ls)))"
    by (rule mset_concat_if)
  then show ?thesis
    by (simp add: merge_outer_def concat_matches_filter)
qed

text \<open>The pairs with equal keys, counted from the left table or from the right one.\<close>

lemma mset_pairs_Cons:
  "mset (concat (map (\<lambda>r. map (\<lambda>l. h l r) (matches r (x # ls))) rs)) =
     mset (map (h x) (matches x rs)) +
     mset (concat (map (\<lambda>r. map (\<lambda>l. h l r) (matches r ls)) rs))"
  by (induction rs) (auto simp: matches_def)

lemma mset_pairs_commute:
  "mset (concat (map (\<lambda>l. map (h l) (matches l rs)) ls)) =
   mset (concat (map (\<lambda>r. map (\<lambda>l. h l r) (matches r ls)) rs))"
proof (induction ls)
  case Nil
  show ?case by (simp add: matches_def)
next
  case (Cons x ls)
  then show ?case by (simp add: mset_pairs_Cons)
qed

lemma swap_both: "join_key l = join_key r \<Longrightarrow> swap_assets (both r l) = both l r"
  by (simp add: swap_assets_def both_def join_key_def)

lemma swap_left_only: "swap_assets (left_only r) = right_only r"
  by (simp add: swap_assets_def left_only_def right_only_def)

lemma swap_right_only: "swap_assets (right_only l) = left_only l"
  by (simp add: swap_assets_def left_only_def right_only_def)

lemma map_swap_pairs:
  "map swap_assets (concat (map (\<lambda>r. map (both r) (matches r ls)) rs)) =
   concat (map (\<lambda>r. map (\<lambda>l. both l r) (matches r ls)) rs)"
proof (induction rs)
  case Nil
  show ?case by simp
next
  case (Cons r rs)
  have "map swap_assets (map (both r) (matches r ls)) = map (\<lambda>l. both l r) (matches r ls)"
    unfolding map_map by (rule map_cong) (simp_all add: matches_def swap_both)
  with Cons show ?case by simp
qed

lemma mset_merge_outer_swap:
  "mset (map swap_assets (merge_outer rs ls)) = mset (merge_outer ls rs)"
proof -
  have "mset (map swap_assets (merge_outer rs ls)) =
      mset (map swap_assets (concat (map (\<lambda>r. map (both r) (matches r ls)) rs))) +
      mset (map swap_assets (map left_only (filter (\<lambda>r. matches r ls = []) rs))) +
      mset (map swap_assets (map right_only (filter (\<lambda>l. matches l rs = []) ls)))"
    by (simp only: mset_map mset_merge_outer image_mset_union)
  also have "\<dots> =
      mset (concat (map (\<lambda>r. map (\<lambda>l. both l r) (matches r ls)) rs)) +
      mset (map right_only (filter (\<lambda>r. matches r ls = []) rs)) +
      mset (map left_only (filter (\<lambda>l. matches l rs = []) ls))"
    by (simp only: map_swap_pairs map_map comp_def swap_left_only swap_right_only)
  also have "\<dots> = mset (merge_outer ls rs)"
    by (simp add: mset_merge_outer mset_pairs_commute [of both rs ls])
  finally show ?thesis .
qed

section \<open>Combined rows\<close>

lemma company_pnl_percent_total: "\<exists>p. company_pnl_percent tc te = Inr p"
  by (simp add: company_pnl_percent_def py_truediv_def truthy_def)

lemma company_pnl_percent_zero: "is_zero te \<Longrightarrow> company_pnl_percent tc te = Inr (Num 0)"
  by (simp add: company_pnl_percent_def truthy_def)

lemma company_pnl_percent_Num:
  assumes "te \<noteq> 0" and "company_pnl_percent (Num tc) (Num te) = Inr q"
  shows "fl_val q = (tc - te) / te * 100 \<and> q \<noteq> NaN"
proof -
  from assms have "q = fmul (fdiv (Num (tc - te)) (Num te)) (Num 100)"
    by (simp add: company_pnl_percent_def py_truediv_def truthy_def is_zero_def fsub_Num)
  then show ?thesis
    by (simp add: fl_val_fmul fl_val_fdiv_Num fmul_Num_not_nan)
qed

lemma add_totals_total: "\<exists>c. add_totals m = Inr c"
proof -
  obtain p where "company_pnl_percent (fadd (CurrentUSD_BTC m) (CurrentUSD_ETH m))
      (fadd (EntryUSD_BTC m) (EntryUSD_ETH m)) = Inr p"
    using company_pnl_percent_total by blast
  then show ?thesis by (simp add: add_totals_def Let_def)
qed

lemma add_totals_fields:
  assumes "add_totals (fillna_row m) = Inr c"
  shows "row_key c = row_key m"
    and "BTC_Held c = fillna0 (BTC_Held m)"
    and "EntryUSD_BTC c = fillna0 (EntryUSD_BTC m)"
    and "CurrentUSD_BTC c = fillna0 (CurrentUSD_BTC m)"
    and "ETH_Held c = fillna0 (ETH_Held m)"
    and "EntryUSD_ETH c = fillna0 (EntryUSD_ETH m)"
    and "CurrentUSD_ETH c = fillna0 (CurrentUSD_ETH m)"
    and "Total_Entry_Value c = fadd (EntryUSD_BTC c) (EntryUSD_ETH c)"
    and "Total_Current_Value c = fadd (CurrentUSD_BTC c) (CurrentUSD_ETH c)"
    and "Total_PnL c = fsub (Total_Current_Value c) (Total_Entry_Value c)"
    and "Company_PnL c = fsub (Total_Current_Value c) (Total_Entry_Value c)"
    and "company_pnl_percent (Total_Current_Value c) (Total_Entry_Value c) = Inr (Company_PnL_pct c)"
  using assms
  by (auto simp: add_totals_def Let_def fillna_row_def row_key_def split: sum.splits)

lemma fillna_swap: "fillna_row (swap_assets m) = swap_assets (fillna_row m)"
  by (simp add: fillna_row_def swap_assets_def)

lemma add_totals_swap_row:
  assumes "add_totals x = Inr c"
  shows "add_totals (swap_assets x) = Inr (swap_assets c)"
proof -
  let ?te = "fadd (EntryUSD_BTC x) (EntryUSD_ETH x)"
  let ?tc = "fadd (CurrentUSD_BTC x) (CurrentUSD_ETH x)"
  obtain p where p: "company_pnl_percent ?tc ?te = Inr p"
    using company_pnl_percent_total by blast
  have e: "fadd (EntryUSD_BTC (swap_assets x)) (EntryUSD_ETH (swap_assets x)) = ?te"
    by (simp add: swap_assets_def fadd_commute [of "EntryUSD_ETH x"])
  have v: "fadd (CurrentUSD_BTC (swap_assets x)) (CurrentUSD_ETH (swap_assets x)) = ?tc"
    by (simp add: swap_assets_def fadd_commute [of "CurrentUSD_ETH x"])
  from assms p have c: "c =
      \<lparr>Company = Company x, Company_Symbol = Company_Symbol x,
       Company_Country = Company_Country x,
       BTC_Held = BTC_Held x, EntryUSD_BTC = EntryUSD_BTC x, CurrentUSD_BTC = CurrentUSD_BTC x,
       ETH_Held = ETH_Held x, EntryUSD_ETH = EntryUSD_ETH x, CurrentUSD_ETH = CurrentUSD_ETH x,
       Total_Entry_Value = ?te, Total_Current_Value = ?tc, Total_PnL = fsub ?tc ?te,
       Company_PnL = fsub ?tc ?te, Company_PnL_pct = p\<rparr>"
    by (simp add: add_totals_def Let_def)
  have "add_totals (swap_assets x) =
      (case company_pnl_percent ?tc ?te of
         Inl err \<Rightarrow> Inl err
       | Inr pct \<Rightarrow>
           Inr \<lparr>Company = Company (swap_assets x), Company_Symbol = Company_Symbol (swap_assets x),
                Company_Country = Company_Country (swap_assets x),
                BTC_Held = BTC_Held (swap_assets x), EntryUSD_BTC = EntryUSD_BTC (swap_assets x),
                CurrentUSD_BTC = CurrentUSD_BTC (swap_assets x),
                ETH_Held = ETH_Held (swap_assets x), EntryUSD_ETH = EntryUSD_ETH (swap_assets x),
                CurrentUSD_ETH = CurrentUSD_ETH (swap_assets x),
                Total_Entry_Value = ?te, Total_Current_Value = ?tc, Total_PnL = fsub ?tc ?te,
                Company_PnL = fsub ?tc ?te, Company_PnL_pct = pct\<rparr>)"
    unfolding add_totals_def Let_def e v ..
  then show ?thesis
    by (simp add: p c swap_assets_def)
qed

lemma add_totals_swap:
  assumes "add_totals (fillna_row m) = Inr c"
  shows "add_totals (fillna_row (swap_assets m)) = Inr (swap_assets c)"
  using add_totals_swap_row [OF assms] by (simp only: fillna_swap)

lemma combined_totals_swap: "combined_totals (swap_assets c) = combined_totals c"
  by (simp add: combined_totals_def swap_assets_def row_key_def)

text \<open>The combined frame is the join, row by row.\<close>

lemma combine_rows:
  "combine ls rs = Inr (map (\<lambda>m. projr (add_totals (fillna_row m))) (merge_outer ls rs))"
proof -
  let ?f = "\<lambda>m. projr (add_totals (fillna_row m))"
  have f: "add_totals (fillna_row m) = Inr (?f m)" for m
    using add_totals_total [of "fillna_row m"] by auto
  have "list_all2 (\<lambda>x y. add_totals x = Inr y) (map fillna_row xs) (map ?f xs)" for xs
    unfolding list_all2_map1 list_all2_map2 list_all2_same using f by blast
  then have c: "collect (map add_totals (map fillna_row xs)) = Inr (map ?f xs)" for xs
    by (simp only: collect_Inr)
  show ?thesis
  proof (cases "ls \<noteq> [] \<or> rs \<noteq> []")
    case True
    then show ?thesis by (simp only: combine_def c if_True)
  next
    case False
    then show ?thesis by (simp add: combine_def merge_outer_def)
  qed
qed

lemma projr_swap:
  "projr (add_totals (fillna_row (swap_assets m))) = swap_assets (projr (add_totals (fillna_row m)))"
proof -
  obtain c where c: "add_totals (fillna_row m) = Inr c"
    using add_totals_total by blast
  from add_totals_swap [OF c] c show ?thesis by simp
qed

lemma combine_swap:
  assumes "combine ls rs = Inr rows1" and "combine rs ls = Inr rows2"
  shows "mset (map swap_assets rows2) = mset rows1"
proof -
  let ?f = "\<lambda>m. projr (add_totals (fillna_row m))"
  from assms have r1: "rows1 = map ?f (merge_outer ls rs)" and r2: "rows2 = map ?f (merge_outer rs ls)"
    by (simp_all add: combine_rows)
  have "map swap_assets rows2 = map ?f (map swap_assets (merge_outer rs ls))"
    by (simp add: r2 projr_swap)
  then have "mset (map swap_assets rows2) = image_mset ?f (mset (map swap_assets (merge_outer rs ls)))"
    by (simp only: mset_map)
  also have "\<dots> = image_mset ?f (mset (merge_outer ls rs))"
    by (simp only: mset_merge_outer_swap)
  also have "\<dots> = mset rows1" by (simp add: r1)
  finally show ?thesis .
qed

lemma display_combined_data_eq:
  assumes "process_treasury_data a = Inr ls" and "process_treasury_data b = Inr rs"
  shows "display_combined_data a b = combine ls rs"
  using assms by (simp add: display_combined_data_def)

section \<open>Keys of the join\<close>

lemma row_key_rows:
  "row_key (both l r) = join_key l"
  "row_key (left_only l) = join_key l"
  "row_key (right_only r) = join_key r"
  by (simp_all add: row_key_def join_key_def both_def left_only_def right_only_def)

lemma length_matches: "length (matches x ys) = count_list (map join_key ys) (join_key x)"
  by (induction ys) (simp_all add: matches_def)

lemma matches_Nil_iff: "matches x ys = [] \<longleftrightarrow> count_list (map join_key ys) (join_key x) = 0"
  using length_matches [of x ys] by (metis length_0_conv)

lemma count_both: "count_list (map row_key (map (both l) xs)) k = (if join_key l = k then length xs else 0)"
  by (induction xs) (simp_all add: row_key_rows)

lemma count_left_part:
  "count_list (map row_key (concat (map (\<lambda>l. if matches l rs = [] then [left_only l]
                                              else map (both l) (matches l rs)) ls))) k =
   count_list (map join_key ls) k * max 1 (count_list (map join_key rs) k)"
proof (induction ls)
  case Nil
  show ?case by simp
next
  case (Cons l ls)
  let ?g = "\<lambda>l. if matches l rs = [] then [left_only l] else map (both l) (matches l rs)"
  have one: "count_list (map row_key (?g l)) k =
      (if join_key l = k then max 1 (count_list (map join_key rs) k) else 0)"
  proof (cases "matches l rs = []")
    case True
    then show ?thesis
      by (auto simp: row_key_rows matches_Nil_iff)
  next
    case False
    then have "0 < count_list (map join_key rs) (join_key l)"
      by (simp add: matches_Nil_iff)
    with False show ?thesis
      by (auto simp: count_both length_matches simp del: map_map)
  qed
  have "count_list (map row_key (concat (map ?g (l # ls)))) k =
      count_list (map row_key (?g l)) k + count_list (map row_key (concat (map ?g ls))) k"
    by (simp only: list.map concat.simps map_append count_list_append)
  with one Cons show ?case by simp
qed

lemma count_right_part:
  "count_list (map row_key (map right_only (filter (\<lambda>r. matches r ls = []) rs))) k =
   (if count_list (map join_key ls) k = 0 then count_list (map join_key rs) k else 0)"
  by (induction rs) (auto simp: row_key_rows matches_Nil_iff)

lemma count_keys_merge:
  "count_list (map row_key (merge_outer ls rs)) k =
     count_list (map join_key ls) k * max 1 (count_list (map join_key rs) k) +
     (if count_list (map join_key ls) k = 0 then count_list (map join_key rs) k else 0)"
  unfolding merge_outer_def map_append count_list_append
  by (simp only: count_left_part count_right_part)

lemma set_keys_merge:
  "set (map row_key (merge_outer ls rs)) = set (map join_key ls) \<union> set (map join_key rs)"
proof -
  have "k \<in> set (map row_key (merge_outer ls rs)) \<longleftrightarrow>
      k \<in> set (map join_key ls) \<union> set (map join_key rs)" for k
  proof -
    have c: "x \<in> set xs \<longleftrightarrow> 0 < count_list xs x"
      for x :: "string \<times> string \<times> string" and xs
      using count_list_0_iff [of xs x] by auto
    have "0 < count_list (map row_key (merge_outer ls rs)) k \<longleftrightarrow>
        0 < count_list (map join_key ls) k \<or> 0 < count_list (map join_key rs) k"
      by (auto simp: count_keys_merge max_def)
    then show ?thesis
      unfolding Un_iff c .
  qed
  then show ?thesis by blast
qed

lemma distinct_count_le: "distinct xs \<longleftrightarrow> (\<forall>k. count_list xs k \<le> 1)"
proof
  assume "distinct xs"
  then show "\<forall>k. count_list xs k \<le> 1"
    by (simp add: distinct_count_atmost_1 flip: count_mset)
next
  assume a: "\<forall>k. count_list xs k \<le> 1"
  have "count (mset xs) k = (if k \<in> set xs then 1 else 0)" for k
    using a [rule_format, of k] count_list_0_iff [of xs k]
    by (cases "k \<in> set xs") (simp_all add: count_mset)
  then show "distinct xs" by (simp add: distinct_count_atmost_1)
qed

lemma distinct_keys_merge:
  assumes "distinct (map join_key ls)" and "distinct (map join_key rs)"
  shows "distinct (map row_key (merge_outer ls rs))"
proof -
  have "count_list (map row_key (merge_outer ls rs)) k \<le> 1" for k
  proof -
    from assms have "count_list (map join_key ls) k \<le> 1" "count_list (map join_key rs) k \<le> 1"
      by (simp_all only: distinct_count_le)
    then have "count_list (map join_key ls) k * max 1 (count_list (map join_key rs) k) +
        (if count_list (map join_key ls) k = 0 then count_list (map join_key rs) k else 0) \<le> 1"
      by (cases "count_list (map join_key ls) k = 0") (auto simp: max_def)
    then show ?thesis by (simp only: count_keys_merge)
  qed
  then show ?thesis by (simp only: distinct_count_le) simp
qed

lemma merge_outer_cases:
  assumes "m \<in> set (merge_outer ls rs)"
  shows "(\<exists>l\<in>set ls. \<exists>r\<in>set rs. join_key r = join_key l \<and> m = both l r) \<or>
         (\<exists>l\<in>set ls. join_key l \<notin> set (map join_key rs) \<and> m = left_only l) \<or>
         (\<exists>r\<in>set rs. join_key r \<notin> set (map join_key ls) \<and> m = right_only r)"
proof -
  have e: "matches x ys = [] \<longleftrightarrow> join_key x \<notin> set (map join_key ys)" for x ys
    by (simp only: matches_Nil_iff count_list_0_iff)
  let ?g = "\<lambda>l. if matches l rs = [] then [left_only l] else map (both l) (matches l rs)"
  from assms consider
      (left) l where "l \<in> set ls" "m \<in> set (?g l)"
    | (right) r where "r \<in> set rs" "matches r ls = []" "m = right_only r"
    unfolding merge_outer_def by auto
  then show ?thesis
  proof cases
    case left
    show ?thesis
    proof (cases "matches l rs = []")
      case True
      with left have "m = left_only l" by simp
      with True left(1) show ?thesis by (auto simp only: e)
    next
      case False
      with left obtain r where "r \<in> set (matches l rs)" "m = both l r" by auto
      then have "r \<in> set rs" "join_key r = join_key l" "m = both l r"
        by (simp_all add: matches_def)
      with left(1) show ?thesis by blast
    qed
  next
    case right
    then show ?thesis by (auto simp only: e)
  qed
qed

section \<open>Rows of the combined table\<close>

lemma fillna0_cases: "fillna0 (Num x) = Num x" "fillna0 NaN = Num 0"
  by (simp_all add: fillna0_def isna_def)

text \<open>The numeric cells of a normalised table are numbers: the payload's, or the default.\<close>

lemma process_cells:
  assumes "process_treasury_data data = Inr rows" and "r \<in> set rows"
  shows "\<exists>h e v. Total_Holdings r = Num h \<and> Entry_Value r = Num e \<and> Current_Value r = Num v"
proof (cases data)
  case None
  with assms show ?thesis by (simp add: process_no_companies)
next
  case (Some d)
  show ?thesis
  proof (cases "companies d")
    case None
    with Some assms show ?thesis by (simp add: process_no_companies)
  next
    case (Some cs)
    from assms(1) \<open>data = Some d\<close> have p: "process_treasury_data (Some d) = Inr rows" by simp
    obtain c where "add_pnl (company_row c) = Inr r"
      using process_rows(3) [OF Some p assms(2)] by blast
    from add_pnl_company_row(1-3) [OF this] show ?thesis by blast
  qed
qed

lemma combine_keys:
  assumes "combine ls rs = Inr rows"
  shows "map row_key rows = map row_key (merge_outer ls rs)"
proof -
  let ?f = "\<lambda>m. projr (add_totals (fillna_row m))"
  have f: "add_totals (fillna_row m) = Inr (?f m)" for m
    using add_totals_total [of "fillna_row m"] by auto
  have "row_key (?f m) = row_key m" for m
    using f [of m] by (rule add_totals_fields(1))
  moreover from assms have "rows = map ?f (merge_outer ls rs)"
    by (simp add: combine_rows)
  ultimately show ?thesis by simp
qed

lemma combine_row_origin:
  assumes "combine ls rs = Inr rows" and "c \<in> set rows"
  shows "\<exists>m\<in>set (merge_outer ls rs). add_totals (fillna_row m) = Inr c"
proof -
  let ?f = "\<lambda>m. projr (add_totals (fillna_row m))"
  have f: "add_totals (fillna_row m) = Inr (?f m)" for m
    using add_totals_total [of "fillna_row m"] by auto
  from assms(1) have "rows = map ?f (merge_outer ls rs)"
    by (simp add: combine_rows)
  with assms(2) obtain m where "m \<in> set (merge_outer ls rs)" "c = ?f m" by auto
  with f [of m] show ?thesis by auto
qed

text \<open>
  A row of the combined table, when the cells of both tables are numbers: its six
  per-asset cells are numbers, its totals are their sums, and the cells of an asset are
  those of a row of that asset's table with the same key, or zero when that table has
  no such key.
\<close>

lemma combined_row_shape:
  assumes lc: "\<And>x. x \<in> set ls \<Longrightarrow>
            \<exists>h e v. Total_Holdings x = Num h \<and> Entry_Value x = Num e \<and> Current_Value x = Num v"
    and rc: "\<And>x. x \<in> set rs \<Longrightarrow>
            \<exists>h e v. Total_Holdings x = Num h \<and> Entry_Value x = Num e \<and> Current_Value x = Num v"
    and "combine ls rs = Inr rows" and "c \<in> set rows"
  shows "\<exists>bh be bv eh ee ev.
           BTC_Held c = Num bh \<and> EntryUSD_BTC c = Num be \<and> CurrentUSD_BTC c = Num bv \<and>
           ETH_Held c = Num eh \<and> EntryUSD_ETH c = Num ee \<and> CurrentUSD_ETH c = Num ev \<and>
           Total_Entry_Value c = Num (be + ee) \<and> Total_Current_Value c = Num (bv + ev) \<and>
           (if row_key c \<in> set (map join_key ls)
            then \<exists>x\<in>set ls. join_key x = row_key c \<and> Total_Holdings x = Num bh \<and>
                   Entry_Value x = Num be \<and> Current_Value x = Num bv
            else bh = 0 \<and> be = 0 \<and> bv = 0) \<and>
           (if row_key c \<in> set (map join_key rs)
            then \<exists>x\<in>set rs. join_key x = row_key c \<and> Total_Holdings x = Num eh \<and>
                   Entry_Value x = Num ee \<and> Current_Value x = Num ev
            else eh = 0 \<and> ee = 0 \<and> ev = 0)"
proof -
  obtain m where m: "m \<in> set (merge_outer ls rs)" and a: "add_totals (fillna_row m) = Inr c"
    using combine_row_origin [OF assms(3,4)] by blast
  note f = add_totals_fields [OF a]
  from merge_outer_cases [OF m] consider
      (both) l r where "l \<in> set ls" "r \<in> set rs" "join_key r = join_key l" "m = both l r"
    | (left) l where "l \<in> set ls" "join_key l \<notin> set (map join_key rs)" "m = left_only l"
    | (right) r where "r \<in> set rs" "join_key r \<notin> set (map join_key ls)" "m = right_only r"
    by blast
  then show ?thesis
  proof cases
    case both
    obtain bh be bv where l: "Total_Holdings l = Num bh" "Entry_Value l = Num be" "Current_Value l = Num bv"
      using lc [OF both(1)] by blast
    obtain eh ee ev where r: "Total_Holdings r = Num eh" "Entry_Value r = Num ee" "Current_Value r = Num ev"
      using rc [OF both(2)] by blast
    have k: "row_key c = join_key l"
      using f(1) both(4) by (simp add: row_key_rows)
    have cells: "BTC_Held c = Num bh" "EntryUSD_BTC c = Num be" "CurrentUSD_BTC c = Num bv"
        "ETH_Held c = Num eh" "EntryUSD_ETH c = Num ee" "CurrentUSD_ETH c = Num ev"
      using f(2-7) both(4) l r by (simp_all add: both_def fillna0_cases)
    have tot: "Total_Entry_Value c = Num (be + ee)" "Total_Current_Value c = Num (bv + ev)"
      using f(8,9) cells by (simp_all add: fadd_Num)
    have inl: "row_key c \<in> set (map join_key ls)" using k both(1) by simp
    have "join_key r \<in> set (map join_key rs)" using both(2) by simp
    then have inr: "row_key c \<in> set (map join_key rs)" by (simp only: k both(3))
    have "\<exists>x\<in>set ls. join_key x = row_key c \<and> Total_Holdings x = Num bh \<and>
                   Entry_Value x = Num be \<and> Current_Value x = Num bv"
      using both(1) k l by (intro bexI [of _ l]) simp_all
    moreover have "\<exists>x\<in>set rs. join_key x = row_key c \<and> Total_Holdings x = Num eh \<and>
                   Entry_Value x = Num ee \<and> Current_Value x = Num ev"
      using both(2,3) k r by (intro bexI [of _ r]) simp_all
    ultimately show ?thesis
      using cells tot inl inr by (simp only: if_True) blast
  next
    case left
    obtain bh be bv where l: "Total_Holdings l = Num bh" "Entry_Value l = Num be" "Current_Value l = Num bv"
      using lc [OF left(1)] by blast
    have k: "row_key c = join_key l"
      using f(1) left(3) by (simp add: row_key_rows)
    have cells: "BTC_Held c = Num bh" "EntryUSD_BTC c = Num be" "CurrentUSD_BTC c = Num bv"
        "ETH_Held c = Num 0" "EntryUSD_ETH c = Num 0" "CurrentUSD_ETH c = Num 0"
      using f(2-7) left(3) l by (simp_all add: left_only_def fillna0_cases)
    have tot: "Total_Entry_Value c = Num (be + 0)" "Total_Current_Value c = Num (bv + 0)"
      using f(8,9) cells by (simp_all add: fadd_Num)
    have inl: "row_key c \<in> set (map join_key ls)" using k left(1) by simp
    have inr: "row_key c \<notin> set (map join_key rs)" using k left(2) by simp
    have "\<exists>x\<in>set ls. join_key x = row_key c \<and> Total_Holdings x = Num bh \<and>
                   Entry_Value x = Num be \<and> Current_Value x = Num bv"
      using left(1) k l by (intro bexI [of _ l]) simp_all
    then show ?thesis
      using cells tot inl inr by (simp only: if_True if_False) blast
  next
    case right
    obtain eh ee ev where r: "Total_Holdings r = Num eh" "Entry_Value r = Num ee" "Current_Value r = Num ev"
      using rc [OF right(1)] by blast
    have k: "row_key c = join_key r"
      using f(1) right(3) by (simp add: row_key_rows)
    have cells: "BTC_Held c = Num 0" "EntryUSD_BTC c = Num 0" "CurrentUSD_BTC c = Num 0"
        "ETH_Held c = Num eh" "EntryUSD_ETH c = Num ee" "CurrentUSD_ETH c = Num ev"
      using f(2-7) right(3) r by (simp_all add: right_only_def fillna0_cases)
    have tot: "Total_Entry_Value c = Num (0 + ee)" "Total_Current_Value c = Num (0 + ev)"
      using f(8,9) cells by (simp_all add: fadd_Num)
    have inr: "row_key c \<in> set (map join_key rs)" using k right(1) by simp
    have inl: "row_key c \<notin> set (map join_key ls)" using k right(2) by simp
    have "\<exists>x\<in>set rs. join_key x = row_key c \<and> Total_Holdings x = Num eh \<and>
                   Entry_Value x = Num ee \<and> Current_Value x = Num ev"
      using right(1) k r by (intro bexI [of _ r]) simp_all
    then show ?thesis
      using cells tot inl inr by (simp only: if_True if_False) blast
  qed
qed

lemma combined_row_percent:
  assumes "add_totals (fillna_row m) = Inr c"
    and "Total_Entry_Value c = Num te" and "Total_Current_Value c = Num tc"
  shows "(te = 0 \<longrightarrow> Company_PnL_pct c = Num 0) \<and>
         (te \<noteq> 0 \<longrightarrow> Company_PnL_pct c \<noteq> NaN \<and> fl_val (Company_PnL_pct c) = (tc - te) / te * 100)"
proof -
  from add_totals_fields(12) [OF assms(1)] assms(2,3)
  have p: "company_pnl_percent (Num tc) (Num te) = Inr (Company_PnL_pct c)" by simp
  show ?thesis
  proof (cases "te = 0")
    case True
    then have "is_zero (Num te)" by (simp add: is_zero_def)
    from company_pnl_percent_zero [OF this, of "Num tc"] p True show ?thesis by simp
  next
    case False
    from company_pnl_percent_Num [OF False p] False show ?thesis by simp
  qed
qed

section \<open>The combined table\<close>

text \<open>
  Claim C7, as amended. The combined tables of two payloads taken in either order
  both exist, and each is the other with the columns of the two assets exchanged, up
  to the order of the rows. So the keys with their combined figures (total entry
  value, total current value, total and per-company profit, per-company percentage)
  are the same in both, as multisets.
\<close>

theorem merge_commutes_up_to_columns:
  "\<exists>rows1 rows2.
     display_combined_data a b = Inr rows1 \<and> display_combined_data b a = Inr rows2 \<and>
     mset (map swap_assets rows2) = mset rows1 \<and>
     mset (map combined_totals rows2) = mset (map combined_totals rows1)"
proof -
  obtain ls rs where p: "process_treasury_data a = Inr ls" "process_treasury_data b = Inr rs"
    using process_total by blast
  obtain rows1 rows2 where r: "combine ls rs = Inr rows1" "combine rs ls = Inr rows2"
    by (simp add: combine_rows)
  have s: "mset (map swap_assets rows2) = mset rows1"
    using r by (rule combine_swap)
  have "mset (map combined_totals rows2) = mset (map combined_totals (map swap_assets rows2))"
    by (simp add: combined_totals_swap comp_def)
  also have "\<dots> = image_mset combined_totals (mset (map swap_assets rows2))"
    by (rule mset_map)
  also have "\<dots> = image_mset combined_totals (mset rows1)"
    by (simp only: s)
  also have "\<dots> = mset (map combined_totals rows1)"
    by (rule mset_map [symmetric])
  finally have t: "mset (map combined_totals rows2) = mset (map combined_totals rows1)" .
  from p r s t show ?thesis
    by (simp add: display_combined_data_eq)
qed

text \<open>
  Claim C7 as stated fails on the records themselves: a company that only the first
  payload lists has its holdings in the columns of the first asset when that payload
  comes first and in the columns of the second asset when it comes second, so the two
  tables do not have the same set of records.
\<close>

theorem merge_not_commutative_counterexample:
  "display_combined_data
     (Some \<lparr>companies =
              Some [\<lparr>name = Some ''X'', symbol = Some ''XXX'', country = Some ''US'',
                     total_holdings = Some 1, total_entry_value_usd = Some 10,
                     total_current_value_usd = Some 20, percentage_of_total_supply = None\<rparr>],
            data_total_holdings = None, total_value_usd = None\<rparr>) None =
   Inr [\<lparr>Company = ''X'', Company_Symbol = ''XXX'', Company_Country = ''US'',
                BTC_Held = Num 1, EntryUSD_BTC = Num 10, CurrentUSD_BTC = Num 20,
                ETH_Held = Num 0, EntryUSD_ETH = Num 0, CurrentUSD_ETH = Num 0,
                Total_Entry_Value = Num 10, Total_Current_Value = Num 20, Total_PnL = Num 10,
                Company_PnL = Num 10, Company_PnL_pct = Num 100\<rparr>] \<and>
   display_combined_data None
     (Some \<lparr>companies =
              Some [\<lparr>name = Some ''X'', symbol = Some ''XXX'', country = Some ''US'',
                     total_holdings = Some 1, total_entry_value_usd = Some 10,
                     total_current_value_usd = Some 20, percentage_of_total_supply = None\<rparr>],
            data_total_holdings = None, total_value_usd = None\<rparr>) =
   Inr [\<lparr>Company = ''X'', Company_Symbol = ''XXX'', Company_Country = ''US'',
                BTC_Held = Num 0, EntryUSD_BTC = Num 0, CurrentUSD_BTC = Num 0,
                ETH_Held = Num 1, EntryUSD_ETH = Num 10, CurrentUSD_ETH = Num 20,
                Total_Entry_Value = Num 10, Total_Current_Value = Num 20, Total_PnL = Num 10,
                Company_PnL = Num 10, Company_PnL_pct = Num 100\<rparr>] \<and>
   set [\<lparr>Company = ''X'', Company_Symbol = ''XXX'', Company_Country = ''US'',
                BTC_Held = Num 1, EntryUSD_BTC = Num 10, CurrentUSD_BTC = Num 20,
                ETH_Held = Num 0, EntryUSD_ETH = Num 0, CurrentUSD_ETH = Num 0,
                Total_Entry_Value = Num 10, Total_Current_Value = Num 20, Total_PnL = Num 10,
                Company_PnL = Num 10, Company_PnL_pct = Num 100\<rparr>] \<noteq>
   set [\<lparr>Company = ''X'', Company_Symbol = ''XXX'', Company_Country = ''US'',
                BTC_Held = Num 0, EntryUSD_BTC = Num 0, CurrentUSD_BTC = Num 0,
                ETH_Held = Num 1, EntryUSD_ETH = Num 10, CurrentUSD_ETH = Num 20,
                Total_Entry_Value = Num 10, Total_Current_Value = Num 20, Total_PnL = Num 10,
                Company_PnL = Num 10, Company_PnL_pct = Num 100\<rparr>]"
  by (simp add: display_combined_data_def process_treasury_data_def company_row_def dict_get_def
      add_pnl_def Let_def pnl_percent_def py_truediv_def truthy_def is_zero_def fillna0_def
      isna_def fsub_def fadd_def fneg_def fdiv_def fmul_def fl_val_def signed_zero_def negative_def
      sort_values_desc_def before_desc_def combine_def merge_outer_def matches_def join_key_def
      both_def left_only_def right_only_def fillna_row_def add_totals_def company_pnl_percent_def)

text \<open>One company held in both assets, the payloads taken in either order.\<close>

theorem merge_commutes_up_to_columns_witness:
  "display_combined_data
     (Some \<lparr>companies =
              Some [\<lparr>name = Some ''X'', symbol = Some ''XXX'', country = Some ''US'',
                     total_holdings = Some 1, total_entry_value_usd = Some 10,
                     total_current_value_usd = Some 20, percentage_of_total_supply = None\<rparr>],
            data_total_holdings = None, total_value_usd = None\<rparr>)
     (Some \<lparr>companies =
              Some [\<lparr>name = Some ''X'', symbol = Some ''XXX'', country = Some ''US'',
                     total_holdings = Some 5, total_entry_value_usd = Some 30,
                     total_current_value_usd = Some 60, percentage_of_total_supply = None\<rparr>],
            data_total_holdings = None, total_value_usd = None\<rparr>) =
   Inr [\<lparr>Company = ''X'', Company_Symbol = ''XXX'', Company_Country = ''US'',
                BTC_Held = Num 1, EntryUSD_BTC = Num 10, CurrentUSD_BTC = Num 20,
                ETH_Held = Num 5, EntryUSD_ETH = Num 30, CurrentUSD_ETH = Num 60,
                Total_Entry_Value = Num 40, Total_Current_Value = Num 80, Total_PnL = Num 40,
                Company_PnL = Num 40, Company_PnL_pct = Num 100\<rparr>] \<and>
   display_combined_data
     (Some \<lparr>companies =
              Some [\<lparr>name = Some ''X'', symbol = Some ''XXX'', country = Some ''US'',
                     total_holdings = Some 5, total_entry_value_usd = Some 30,
                     total_current_value_usd = Some 60, percentage_of_total_supply = None\<rparr>],
            data_total_holdings = None, total_value_usd = None\<rparr>)
     (Some \<lparr>companies =
              Some [\<lparr>name = Some ''X'', symbol = Some ''XXX'', country = Some ''US'',
                     total_holdings = Some 1, total_entry_value_usd = Some 10,
                     total_current_value_usd = Some 20, percentage_of_total_supply = None\<rparr>],
            data_total_holdings = None, total_value_usd = None\<rparr>) =
   Inr [\<lparr>Company = ''X'', Company_Symbol = ''XXX'', Company_Country = ''US'',
                BTC_Held = Num 5, EntryUSD_BTC = Num 30, CurrentUSD_BTC = Num 60,
                ETH_Held = Num 1, EntryUSD_ETH = Num 10, CurrentUSD_ETH = Num 20,
                Total_Entry_Value = Num 40, Total_Current_Value = Num 80, Total_PnL = Num 40,
                Company_PnL = Num 40, Company_PnL_pct = Num 100\<rparr>] \<and>
   swap_assets
     \<lparr>Company = ''X'', Company_Symbol = ''XXX'', Company_Country = ''US'',
             BTC_Held = Num 5, EntryUSD_BTC = Num 30, CurrentUSD_BTC = Num 60,
             ETH_Held = Num 1, EntryUSD_ETH = Num 10, CurrentUSD_ETH = Num 20,
             Total_Entry_Value = Num 40, Total_Current_Value = Num 80, Total_PnL = Num 40,
             Company_PnL = Num 40, Company_PnL_pct = Num 100\<rparr> =
     \<lparr>Company = ''X'', Company_Symbol = ''XXX'', Company_Country = ''US'',
             BTC_Held = Num 1, EntryUSD_BTC = Num 10, CurrentUSD_BTC = Num 20,
             ETH_Held = Num 5, EntryUSD_ETH = Num 30, CurrentUSD_ETH = Num 60,
             Total_Entry_Value = Num 40, Total_Current_Value = Num 80, Total_PnL = Num 40,
             Company_PnL = Num 40, Company_PnL_pct = Num 100\<rparr>"
  using merge_commutes_up_to_columns
    [of "Some \<lparr>companies =
                  Some [\<lparr>name = Some ''X'', symbol = Some ''XXX'', country = Some ''US'',
                         total_holdings = Some 1, total_entry_value_usd = Some 10,
                         total_current_value_usd = Some 20, percentage_of_total_supply = None\<rparr>],
                data_total_holdings = None, total_value_usd = None\<rparr>"
        "Some \<lparr>companies =
                  Some [\<lparr>name = Some ''X'', symbol = Some ''XXX'', country = Some ''US'',
                         total_holdings = Some 5, total_entry_value_usd = Some 30,
                         total_current_value_usd = Some 60, percentage_of_total_supply = None\<rparr>],
                data_total_holdings = None, total_value_usd = None\<rparr>"]
  by (simp add: display_combined_data_def process_treasury_data_def company_row_def dict_get_def
      add_pnl_def Let_def pnl_percent_def py_truediv_def truthy_def is_zero_def fillna0_def
      isna_def fsub_def fadd_def fneg_def fdiv_def fmul_def fl_val_def signed_zero_def negative_def
      sort_values_desc_def before_desc_def combine_def merge_outer_def matches_def join_key_def
      both_def left_only_def right_only_def fillna_row_def add_totals_def company_pnl_percent_def swap_assets_def)

section \<open>One row for each key\<close>

lemma combined_row_join:
  assumes "process_treasury_data a = Inr btc" and "process_treasury_data b = Inr eth"
    and "combine btc eth = Inr rows" and "r \<in> set rows"
  shows "(\<exists>be ee bv ev.
            EntryUSD_BTC r = Num be \<and> EntryUSD_ETH r = Num ee \<and>
            CurrentUSD_BTC r = Num bv \<and> CurrentUSD_ETH r = Num ev \<and>
            Total_Entry_Value r = Num (be + ee) \<and> Total_Current_Value r = Num (bv + ev)) \<and>
         (if row_key r \<in> set (map join_key btc)
          then \<exists>x\<in>set btc. join_key x = row_key r \<and> BTC_Held r = Total_Holdings x \<and>
                 EntryUSD_BTC r = Entry_Value x \<and> CurrentUSD_BTC r = Current_Value x
          else BTC_Held r = Num 0 \<and> EntryUSD_BTC r = Num 0 \<and> CurrentUSD_BTC r = Num 0 \<and>
               Total_Entry_Value r = EntryUSD_ETH r \<and> Total_Current_Value r = CurrentUSD_ETH r) \<and>
         (if row_key r \<in> set (map join_key eth)
          then \<exists>x\<in>set eth. join_key x = row_key r \<and> ETH_Held r = Total_Holdings x \<and>
                 EntryUSD_ETH r = Entry_Value x \<and> CurrentUSD_ETH r = Current_Value x
          else ETH_Held r = Num 0 \<and> EntryUSD_ETH r = Num 0 \<and> CurrentUSD_ETH r = Num 0 \<and>
               Total_Entry_Value r = EntryUSD_BTC r \<and> Total_Current_Value r = CurrentUSD_BTC r)"
proof -
  obtain bh be bv eh ee ev where
    c: "BTC_Held r = Num bh" "EntryUSD_BTC r = Num be" "CurrentUSD_BTC r = Num bv"
       "ETH_Held r = Num eh" "EntryUSD_ETH r = Num ee" "CurrentUSD_ETH r = Num ev"
       "Total_Entry_Value r = Num (be + ee)" "Total_Current_Value r = Num (bv + ev)"
    and l: "if row_key r \<in> set (map join_key btc)
            then \<exists>x\<in>set btc. join_key x = row_key r \<and> Total_Holdings x = Num bh \<and>
                   Entry_Value x = Num be \<and> Current_Value x = Num bv
            else bh = 0 \<and> be = 0 \<and> bv = 0"
    and e: "if row_key r \<in> set (map join_key eth)
            then \<exists>x\<in>set eth. join_key x = row_key r \<and> Total_Holdings x = Num eh \<and>
                   Entry_Value x = Num ee \<and> Current_Value x = Num ev
            else eh = 0 \<and> ee = 0 \<and> ev = 0"
    using combined_row_shape [OF process_cells [OF assms(1)] process_cells [OF assms(2)] assms(3,4)]
    by blast
  have 1: "\<exists>be ee bv ev.
            EntryUSD_BTC r = Num be \<and> EntryUSD_ETH r = Num ee \<and>
            CurrentUSD_BTC r = Num bv \<and> CurrentUSD_ETH r = Num ev \<and>
            Total_Entry_Value r = Num (be + ee) \<and> Total_Current_Value r = Num (bv + ev)"
    using c by blast
  have 2: "if row_key r \<in> set (map join_key btc)
          then \<exists>x\<in>set btc. join_key x = row_key r \<and> BTC_Held r = Total_Holdings x \<and>
                 EntryUSD_BTC r = Entry_Value x \<and> CurrentUSD_BTC r = Current_Value x
          else BTC_Held r = Num 0 \<and> EntryUSD_BTC r = Num 0 \<and> CurrentUSD_BTC r = Num 0 \<and>
               Total_Entry_Value r = EntryUSD_ETH r \<and> Total_Current_Value r = CurrentUSD_ETH r"
  proof (cases "row_key r \<in> set (map join_key btc)")
    case True
    with l obtain x where "x \<in> set btc" "join_key x = row_key r" "Total_Holdings x = Num bh"
        "Entry_Value x = Num be" "Current_Value x = Num bv"
      by (simp only: if_True) blast
    then have "\<exists>x\<in>set btc. join_key x = row_key r \<and> BTC_Held r = Total_Holdings x \<and>
                 EntryUSD_BTC r = Entry_Value x \<and> CurrentUSD_BTC r = Current_Value x"
      using c(1-3) by (intro bexI [of _ x]) simp_all
    with True show ?thesis by (simp only: if_True)
  next
    case False
    with l have "bh = 0" "be = 0" "bv = 0" by (simp_all only: if_False)
    with c have "BTC_Held r = Num 0 \<and> EntryUSD_BTC r = Num 0 \<and> CurrentUSD_BTC r = Num 0 \<and>
               Total_Entry_Value r = EntryUSD_ETH r \<and> Total_Current_Value r = CurrentUSD_ETH r"
      by simp
    with False show ?thesis by (simp only: if_False)
  qed
  have 3: "if row_key r \<in> set (map join_key eth)
          then \<exists>x\<in>set eth. join_key x = row_key r \<and> ETH_Held r = Total_Holdings x \<and>
                 EntryUSD_ETH r = Entry_Value x \<and> CurrentUSD_ETH r = Current_Value x
          else ETH_Held r = Num 0 \<and> EntryUSD_ETH r = Num 0 \<and> CurrentUSD_ETH r = Num 0 \<and>
               Total_Entry_Value r = EntryUSD_BTC r \<and> Total_Current_Value r = CurrentUSD_BTC r"
  proof (cases "row_key r \<in> set (map join_key eth)")
    case True
    with e obtain x where "x \<in> set eth" "join_key x = row_key r" "Total_Holdings x = Num eh"
        "Entry_Value x = Num ee" "Current_Value x = Num ev"
      by (simp only: if_True) blast
    then have "\<exists>x\<in>set eth. join_key x = row_key r \<and> ETH_Held r = Total_Holdings x \<and>
                 EntryUSD_ETH r = Entry_Value x \<and> CurrentUSD_ETH r = Current_Value x"
      using c(4-6) by (intro bexI [of _ x]) simp_all
    with True show ?thesis by (simp only: if_True)
  next
    case False
    with e have "eh = 0" "ee = 0" "ev = 0" by (simp_all only: if_False)
    with c have "ETH_Held r = Num 0 \<and> EntryUSD_ETH r = Num 0 \<and> CurrentUSD_ETH r = Num 0 \<and>
               Total_Entry_Value r = EntryUSD_BTC r \<and> Total_Current_Value r = CurrentUSD_BTC r"
      by simp
    with False show ?thesis by (simp only: if_False)
  qed
  from 1 2 3 show ?thesis by (intro conjI)
qed

text \<open>
  Claim C2, as amended. The combined table of two payloads exists. Its keys are the
  keys of the two normalised tables together. A key that the first table has \<open>m\<close>
  times and the second \<open>n\<close> times has \<open>m * n\<close> rows when both have it, \<open>m\<close> or \<open>n\<close> rows when
  only one has it: exactly one row per key when no table repeats a key. In every row
  the six per-asset values are numbers, the total entry value is the sum of the two
  entry values and the total current value the sum of the two current values. The
  values of an asset are those of a row of that asset's table with the row's key; when
  that table does not have the key they are exactly zero, and the totals are the other
  asset's values unchanged.
\<close>

theorem outer_join_rows:
  "\<exists>btc eth rows.
     process_treasury_data a = Inr btc \<and> process_treasury_data b = Inr eth \<and>
     display_combined_data a b = Inr rows \<and>
     set (map row_key rows) = set (map join_key btc) \<union> set (map join_key eth) \<and>
     (\<forall>k. count_list (map row_key rows) k =
            count_list (map join_key btc) k * max 1 (count_list (map join_key eth) k) +
            (if count_list (map join_key btc) k = 0 then count_list (map join_key eth) k else 0)) \<and>
     (distinct (map join_key btc) \<and> distinct (map join_key eth) \<longrightarrow> distinct (map row_key rows)) \<and>
     (\<forall>r\<in>set rows.
        (\<exists>be ee bv ev.
            EntryUSD_BTC r = Num be \<and> EntryUSD_ETH r = Num ee \<and>
            CurrentUSD_BTC r = Num bv \<and> CurrentUSD_ETH r = Num ev \<and>
            Total_Entry_Value r = Num (be + ee) \<and> Total_Current_Value r = Num (bv + ev)) \<and>
        (if row_key r \<in> set (map join_key btc)
         then \<exists>x\<in>set btc. join_key x = row_key r \<and> BTC_Held r = Total_Holdings x \<and>
                EntryUSD_BTC r = Entry_Value x \<and> CurrentUSD_BTC r = Current_Value x
         else BTC_Held r = Num 0 \<and> EntryUSD_BTC r = Num 0 \<and> CurrentUSD_BTC r = Num 0 \<and>
              Total_Entry_Value r = EntryUSD_ETH r \<and> Total_Current_Value r = CurrentUSD_ETH r) \<and>
        (if row_key r \<in> set (map join_key eth)
         then \<exists>x\<in>set eth. join_key x = row_key r \<and> ETH_Held r = Total_Holdings x \<and>
                EntryUSD_ETH r = Entry_Value x \<and> CurrentUSD_ETH r = Current_Value x
         else ETH_Held r = Num 0 \<and> EntryUSD_ETH r = Num 0 \<and> CurrentUSD_ETH r = Num 0 \<and>
              Total_Entry_Value r = EntryUSD_BTC r \<and> Total_Current_Value r = CurrentUSD_BTC r))"
proof -
  obtain btc eth where p: "process_treasury_data a = Inr btc" "process_treasury_data b = Inr eth"
    using process_total by blast
  obtain rows where r: "combine btc eth = Inr rows"
    by (simp add: combine_rows)
  have d: "display_combined_data a b = Inr rows"
    using p r by (simp add: display_combined_data_eq)
  note k = combine_keys [OF r]
  have s: "set (map row_key rows) = set (map join_key btc) \<union> set (map join_key eth)"
    by (simp only: k set_keys_merge)
  have c: "\<forall>k. count_list (map row_key rows) k =
            count_list (map join_key btc) k * max 1 (count_list (map join_key eth) k) +
            (if count_list (map join_key btc) k = 0 then count_list (map join_key eth) k else 0)"
    by (simp only: k count_keys_merge) simp
  have i: "distinct (map join_key btc) \<and> distinct (map join_key eth) \<longrightarrow> distinct (map row_key rows)"
    by (simp only: k) (blast intro: distinct_keys_merge)
  note j = combined_row_join [OF p r]
  show ?thesis
    apply (rule exI [of _ btc])
    apply (rule exI [of _ eth])
    apply (rule exI [of _ rows])
    apply (intro conjI ballI)
            apply (rule p(1))
           apply (rule p(2))
          apply (rule d)
         apply (rule s)
        apply (rule c)
       apply (rule i)
      apply (rule j [THEN conjunct1], assumption)
     apply (rule j [THEN conjunct2, THEN conjunct1], assumption)
    apply (rule j [THEN conjunct2, THEN conjunct2], assumption)
    done
qed

text \<open>
  Claim C2 as stated fails when a table repeats a key: a payload that lists the same
  company (name, symbol and country) twice, joined with a payload that lists it once,
  gives two rows with that key, not one.
\<close>

theorem outer_join_counterexample:
  "display_combined_data
     (Some \<lparr>companies =
              Some [\<lparr>name = Some ''X'', symbol = Some ''XXX'', country = Some ''US'',
                     total_holdings = Some 2, total_entry_value_usd = Some 10,
                     total_current_value_usd = Some 20, percentage_of_total_supply = None\<rparr>,
                    \<lparr>name = Some ''X'', symbol = Some ''XXX'', country = Some ''US'',
                     total_holdings = Some 1, total_entry_value_usd = Some 10,
                     total_current_value_usd = Some 10, percentage_of_total_supply = None\<rparr>],
            data_total_holdings = None, total_value_usd = None\<rparr>)
     (Some \<lparr>companies =
              Some [\<lparr>name = Some ''X'', symbol = Some ''XXX'', country = Some ''US'',
                     total_holdings = Some 5, total_entry_value_usd = Some 30,
                     total_current_value_usd = Some 60, percentage_of_total_supply = None\<rparr>],
            data_total_holdings = None, total_value_usd = None\<rparr>) =
   Inr [\<lparr>Company = ''X'', Company_Symbol = ''XXX'', Company_Country = ''US'',
                BTC_Held = Num 2, EntryUSD_BTC = Num 10, CurrentUSD_BTC = Num 20,
                ETH_Held = Num 5, EntryUSD_ETH = Num 30, CurrentUSD_ETH = Num 60,
                Total_Entry_Value = Num 40, Total_Current_Value = Num 80, Total_PnL = Num 40,
                Company_PnL = Num 40, Company_PnL_pct = Num 100\<rparr>,
        \<lparr>Company = ''X'', Company_Symbol = ''XXX'', Company_Country = ''US'',
                BTC_Held = Num 1, EntryUSD_BTC = Num 10, CurrentUSD_BTC = Num 10,
                ETH_Held = Num 5, EntryUSD_ETH = Num 30, CurrentUSD_ETH = Num 60,
                Total_Entry_Value = Num 40, Total_Current_Value = Num 70, Total_PnL = Num 30,
                Company_PnL = Num 30, Company_PnL_pct = Num 75\<rparr>] \<and>
   row_key
     \<lparr>Company = ''X'', Company_Symbol = ''XXX'', Company_Country = ''US'',
             BTC_Held = Num 2, EntryUSD_BTC = Num 10, CurrentUSD_BTC = Num 20,
             ETH_Held = Num 5, EntryUSD_ETH = Num 30, CurrentUSD_ETH = Num 60,
             Total_Entry_Value = Num 40, Total_Current_Value = Num 80, Total_PnL = Num 40,
             Company_PnL = Num 40, Company_PnL_pct = Num 100\<rparr> =
   row_key
     \<lparr>Company = ''X'', Company_Symbol = ''XXX'', Company_Country = ''US'',
             BTC_Held = Num 1, EntryUSD_BTC = Num 10, CurrentUSD_BTC = Num 10,
             ETH_Held = Num 5, EntryUSD_ETH = Num 30, CurrentUSD_ETH = Num 60,
             Total_Entry_Value = Num 40, Total_Current_Value = Num 70, Total_PnL = Num 30,
             Company_PnL = Num 30, Company_PnL_pct = Num 75\<rparr>"
  by (simp add: display_combined_data_def process_treasury_data_def company_row_def dict_get_def
      add_pnl_def Let_def pnl_percent_def py_truediv_def truthy_def is_zero_def fillna0_def
      isna_def fsub_def fadd_def fneg_def fdiv_def fmul_def fl_val_def signed_zero_def negative_def
      sort_values_desc_def before_desc_def combine_def merge_outer_def matches_def join_key_def
      both_def left_only_def right_only_def fillna_row_def add_totals_def company_pnl_percent_def row_key_def)

text \<open>A company held in both assets and a company held only in the second.\<close>

theorem outer_join_rows_witness:
  "display_combined_data
     (Some \<lparr>companies =
              Some [\<lparr>name = Some ''X'', symbol = Some ''XXX'', country = Some ''US'',
                     total_holdings = Some 1, total_entry_value_usd = Some 10,
                     total_current_value_usd = Some 20, percentage_of_total_supply = None\<rparr>],
            data_total_holdings = None, total_value_usd = None\<rparr>)
     (Some \<lparr>companies =
              Some [\<lparr>name = Some ''Y'', symbol = Some ''YYY'', country = Some ''JP'',
                     total_holdings = Some 2, total_entry_value_usd = Some 4,
                     total_current_value_usd = Some 8, percentage_of_total_supply = None\<rparr>,
                    \<lparr>name = Some ''X'', symbol = Some ''XXX'', country = Some ''US'',
                     total_holdings = Some 5, total_entry_value_usd = Some 30,
                     total_current_value_usd = Some 60, percentage_of_total_supply = None\<rparr>],
            data_total_holdings = None, total_value_usd = None\<rparr>) =
   Inr [\<lparr>Company = ''X'', Company_Symbol = ''XXX'', Company_Country = ''US'',
                BTC_Held = Num 1, EntryUSD_BTC = Num 10, CurrentUSD_BTC = Num 20,
                ETH_Held = Num 5, EntryUSD_ETH = Num 30, CurrentUSD_ETH = Num 60,
                Total_Entry_Value = Num 40, Total_Current_Value = Num 80, Total_PnL = Num 40,
                Company_PnL = Num 40, Company_PnL_pct = Num 100\<rparr>,
        \<lparr>Company = ''Y'', Company_Symbol = ''YYY'', Company_Country = ''JP'',
                BTC_Held = Num 0, EntryUSD_BTC = Num 0, CurrentUSD_BTC = Num 0,
                ETH_Held = Num 2, EntryUSD_ETH = Num 4, CurrentUSD_ETH = Num 8,
                Total_Entry_Value = Num 4, Total_Current_Value = Num 8, Total_PnL = Num 4,
                Company_PnL = Num 4, Company_PnL_pct = Num 100\<rparr>]"
  using outer_join_rows
    [of "Some \<lparr>companies =
                  Some [\<lparr>name = Some ''X'', symbol = Some ''XXX'', country = Some ''US'',
                         total_holdings = Some 1, total_entry_value_usd = Some 10,
                         total_current_value_usd = Some 20, percentage_of_total_supply = None\<rparr>],
                data_total_holdings = None, total_value_usd = None\<rparr>"
        "Some \<lparr>companies =
                  Some [\<lparr>name = Some ''Y'', symbol = Some ''YYY'', country = Some ''JP'',
                         total_holdings = Some 2, total_entry_value_usd = Some 4,
                         total_current_value_usd = Some 8, percentage_of_total_supply = None\<rparr>,
                        \<lparr>name = Some ''X'', symbol = Some ''XXX'', country = Some ''US'',
                         total_holdings = Some 5, total_entry_value_usd = Some 30,
                         total_current_value_usd = Some 60, percentage_of_total_supply = None\<rparr>],
                data_total_holdings = None, total_value_usd = None\<rparr>"]
  by (simp add: display_combined_data_def process_treasury_data_def company_row_def dict_get_def
      add_pnl_def Let_def pnl_percent_def py_truediv_def truthy_def is_zero_def fillna0_def
      isna_def fsub_def fadd_def fneg_def fdiv_def fmul_def fl_val_def signed_zero_def negative_def
      sort_values_desc_def before_desc_def combine_def merge_outer_def matches_def join_key_def
      both_def left_only_def right_only_def fillna_row_def add_totals_def company_pnl_percent_def row_key_def)

section \<open>The percentage's guard\<close>

lemma process_row_origin:
  assumes "process_treasury_data data = Inr rows" and "r \<in> set rows"
  shows "\<exists>c. add_pnl (company_row c) = Inr r"
proof (cases data)
  case None
  with assms show ?thesis by (simp add: process_no_companies)
next
  case (Some d)
  show ?thesis
  proof (cases "companies d")
    case None
    with Some assms show ?thesis by (simp add: process_no_companies)
  next
    case (Some cs)
    from assms(1) \<open>data = Some d\<close> have p: "process_treasury_data (Some d) = Inr rows" by simp
    from process_rows(3) [OF Some p assms(2)] show ?thesis by blast
  qed
qed

lemma row_percent:
  assumes "add_pnl (company_row c) = Inr r"
  shows "Entry_Value r = Num (dict_get (total_entry_value_usd c) 0)"
    and "Current_Value r = Num (dict_get (total_current_value_usd c) 0)"
    and "dict_get (total_entry_value_usd c) 0 = 0 \<Longrightarrow> PnL_pct r = Num 0"
    and "dict_get (total_entry_value_usd c) 0 \<noteq> 0 \<Longrightarrow>
           PnL_pct r \<noteq> NaN \<and>
           fl_val (PnL_pct r) =
             (dict_get (total_current_value_usd c) 0 - dict_get (total_entry_value_usd c) 0) /
             dict_get (total_entry_value_usd c) 0 * 100"
proof -
  let ?e = "dict_get (total_entry_value_usd c) 0"
  let ?v = "dict_get (total_current_value_usd c) 0"
  note f = add_pnl_company_row [OF assms]
  show "Entry_Value r = Num ?e" by (rule f(2))
  show "Current_Value r = Num ?v" by (rule f(3))
  from f(5) have p: "pnl_percent (Num (?v - ?e)) (Num ?e) = Inr (PnL_pct r)"
    by (simp only: f(2) f(4))
  show "PnL_pct r = Num 0" if "?e = 0"
  proof -
    from that have "is_zero (Num ?e)" by (simp add: is_zero_def)
    from pnl_percent_zero [OF this, of "Num (?v - ?e)"] p show ?thesis by simp
  qed
  show "PnL_pct r \<noteq> NaN \<and> fl_val (PnL_pct r) = (?v - ?e) / ?e * 100" if "?e \<noteq> 0"
    using pnl_percent_Num [OF that p] by simp
qed

lemma combined_percent:
  assumes "process_treasury_data a = Inr btc" and "process_treasury_data b = Inr eth"
    and "combine btc eth = Inr rows" and "r \<in> set rows"
  shows "\<exists>te tc. Total_Entry_Value r = Num te \<and> Total_Current_Value r = Num tc \<and>
           (te = 0 \<longrightarrow> Company_PnL_pct r = Num 0) \<and>
           (te \<noteq> 0 \<longrightarrow> Company_PnL_pct r \<noteq> NaN \<and>
              fl_val (Company_PnL_pct r) = (tc - te) / te * 100)"
proof -
  obtain te tc where t: "Total_Entry_Value r = Num te" "Total_Current_Value r = Num tc"
    using combined_row_shape [OF process_cells [OF assms(1)] process_cells [OF assms(2)] assms(3,4)]
    by blast
  obtain m where "add_totals (fillna_row m) = Inr r"
    using combine_row_origin [OF assms(3,4)] by blast
  from combined_row_percent [OF this t] t show ?thesis by blast
qed

text \<open>
  The guard where the payload's numeric values are numbers (no \<^verbatim>\<open>null\<close>), in exact
  arithmetic. Normalising a payload and combining two payloads never stop with a
  division error: both tables exist. In every row of the normalised table the entry
  value and the current value are numbers; the percentage is 0 when the entry value
  is 0, and otherwise it is a number, (current value - entry value) / entry value * 100.
  Every company of the payload has such a row: its percentage is 0 when the
  company's entry value is missing or 0, and is computed from the company's values
  (a missing current value counting as 0) otherwise. The same holds in the combined
  table for the per-company percentage on the total entry value and the total
  current value.
\<close>

theorem pnl_percent_zero_guard:
  "\<exists>rows crows.
     process_treasury_data a = Inr rows \<and> display_combined_data a b = Inr crows \<and>
     (\<forall>r\<in>set rows. \<exists>e v.
        Entry_Value r = Num e \<and> Current_Value r = Num v \<and>
        (e = 0 \<longrightarrow> PnL_pct r = Num 0) \<and>
        (e \<noteq> 0 \<longrightarrow> PnL_pct r \<noteq> NaN \<and> fl_val (PnL_pct r) = (v - e) / e * 100)) \<and>
     (\<forall>d cs. a = Some d \<and> companies d = Some cs \<longrightarrow>
        (\<forall>c\<in>set cs. \<exists>r\<in>set rows.
           columns r = company_row c \<and>
           (total_entry_value_usd c = None \<or> total_entry_value_usd c = Some 0 \<longrightarrow>
              PnL_pct r = Num 0) \<and>
           (\<forall>e. total_entry_value_usd c = Some e \<and> e \<noteq> 0 \<longrightarrow>
              PnL_pct r \<noteq> NaN \<and>
              fl_val (PnL_pct r) = (dict_get (total_current_value_usd c) 0 - e) / e * 100))) \<and>
     (\<forall>r\<in>set crows. \<exists>te tc.
        Total_Entry_Value r = Num te \<and> Total_Current_Value r = Num tc \<and>
        (te = 0 \<longrightarrow> Company_PnL_pct r = Num 0) \<and>
        (te \<noteq> 0 \<longrightarrow> Company_PnL_pct r \<noteq> NaN \<and>
           fl_val (Company_PnL_pct r) = (tc - te) / te * 100))"
proof -
  obtain rows eth where p: "process_treasury_data a = Inr rows" "process_treasury_data b = Inr eth"
    using process_total by blast
  obtain crows where r: "combine rows eth = Inr crows"
    by (simp add: combine_rows)
  have d: "display_combined_data a b = Inr crows"
    using p r by (simp add: display_combined_data_eq)
  have 1: "\<forall>r\<in>set rows. \<exists>e v.
        Entry_Value r = Num e \<and> Current_Value r = Num v \<and>
        (e = 0 \<longrightarrow> PnL_pct r = Num 0) \<and>
        (e \<noteq> 0 \<longrightarrow> PnL_pct r \<noteq> NaN \<and> fl_val (PnL_pct r) = (v - e) / e * 100)"
  proof
    fix x assume "x \<in> set rows"
    then obtain c where c: "add_pnl (company_row c) = Inr x"
      using process_row_origin [OF p(1)] by blast
    note f = row_percent [OF c]
    show "\<exists>e v. Entry_Value x = Num e \<and> Current_Value x = Num v \<and>
        (e = 0 \<longrightarrow> PnL_pct x = Num 0) \<and>
        (e \<noteq> 0 \<longrightarrow> PnL_pct x \<noteq> NaN \<and> fl_val (PnL_pct x) = (v - e) / e * 100)"
      using f by (intro exI [of _ "dict_get (total_entry_value_usd c) 0"]
          exI [of _ "dict_get (total_current_value_usd c) 0"]) blast
  qed
  have 2: "\<forall>d cs. a = Some d \<and> companies d = Some cs \<longrightarrow>
        (\<forall>c\<in>set cs. \<exists>r\<in>set rows.
           columns r = company_row c \<and>
           (total_entry_value_usd c = None \<or> total_entry_value_usd c = Some 0 \<longrightarrow>
              PnL_pct r = Num 0) \<and>
           (\<forall>e. total_entry_value_usd c = Some e \<and> e \<noteq> 0 \<longrightarrow>
              PnL_pct r \<noteq> NaN \<and>
              fl_val (PnL_pct r) = (dict_get (total_current_value_usd c) 0 - e) / e * 100))"
  proof (intro allI impI ballI)
    fix d cs c
    assume a: "a = Some d \<and> companies d = Some cs" and cin: "c \<in> set cs"
    from a p(1) have q: "companies d = Some cs" "process_treasury_data (Some d) = Inr rows"
      by simp_all
    obtain x where x: "x \<in> set rows" "add_pnl (company_row c) = Inr x"
      using process_rows(4) [OF q cin] by blast
    note f = row_percent [OF x(2)]
    have z: "total_entry_value_usd c = None \<or> total_entry_value_usd c = Some 0 \<longrightarrow>
              PnL_pct x = Num 0"
      using f(3) by (auto simp: dict_get_def)
    have n: "\<forall>e. total_entry_value_usd c = Some e \<and> e \<noteq> 0 \<longrightarrow>
              PnL_pct x \<noteq> NaN \<and>
              fl_val (PnL_pct x) = (dict_get (total_current_value_usd c) 0 - e) / e * 100"
    proof (intro allI impI)
      fix e assume e: "total_entry_value_usd c = Some e \<and> e \<noteq> 0"
      then have "dict_get (total_entry_value_usd c) 0 = e" by (simp add: dict_get_def)
      with f(4) e show "PnL_pct x \<noteq> NaN \<and>
          fl_val (PnL_pct x) = (dict_get (total_current_value_usd c) 0 - e) / e * 100"
        by simp
    qed
    from x(1) add_pnl_columns [OF x(2)] z n
    show "\<exists>r\<in>set rows.
           columns r = company_row c \<and>
           (total_entry_value_usd c = None \<or> total_entry_value_usd c = Some 0 \<longrightarrow>
              PnL_pct r = Num 0) \<and>
           (\<forall>e. total_entry_value_usd c = Some e \<and> e \<noteq> 0 \<longrightarrow>
              PnL_pct r \<noteq> NaN \<and>
              fl_val (PnL_pct r) = (dict_get (total_current_value_usd c) 0 - e) / e * 100)"
      by (intro bexI [of _ x] conjI)
  qed
  have 3: "\<forall>r\<in>set crows. \<exists>te tc.
        Total_Entry_Value r = Num te \<and> Total_Current_Value r = Num tc \<and>
        (te = 0 \<longrightarrow> Company_PnL_pct r = Num 0) \<and>
        (te \<noteq> 0 \<longrightarrow> Company_PnL_pct r \<noteq> NaN \<and>
           fl_val (Company_PnL_pct r) = (tc - te) / te * 100)"
    using combined_percent [OF p r] by blast
  show ?thesis
    apply (rule exI [of _ rows])
    apply (rule exI [of _ crows])
    apply (intro conjI)
        apply (rule p(1))
       apply (rule d)
      apply (rule 1)
     apply (rule 2)
    apply (rule 3)
    done
qed

text \<open>
  A company without an entry value and a company with one, combined with a payload
  whose only company has the entry value 0.
\<close>

theorem pnl_percent_zero_guard_witness:
  "process_treasury_data
     (Some \<lparr>companies =
              Some [\<lparr>name = Some ''Z'', symbol = None, country = None,
                     total_holdings = Some 5, total_entry_value_usd = None,
                     total_current_value_usd = Some 7, percentage_of_total_supply = None\<rparr>,
                    \<lparr>name = Some ''A'', symbol = None, country = None,
                     total_holdings = Some 1000, total_entry_value_usd = Some 30,
                     total_current_value_usd = Some 50, percentage_of_total_supply = None\<rparr>],
            data_total_holdings = None, total_value_usd = None\<rparr>) =
   Inr [\<lparr>Name = ''A'', Symbol = ''N/A'', Country = ''Unknown'', Total_Holdings = Num 1000,
                Entry_Value = Num 30, Current_Value = Num 50, Pct_of_Total_Supply = Num 0,
                PnL = Num 20, PnL_pct = Num (200 / 3)\<rparr>,
        \<lparr>Name = ''Z'', Symbol = ''N/A'', Country = ''Unknown'', Total_Holdings = Num 5,
                Entry_Value = Num 0, Current_Value = Num 7, Pct_of_Total_Supply = Num 0,
                PnL = Num 7, PnL_pct = Num 0\<rparr>] \<and>
   display_combined_data
     (Some \<lparr>companies =
              Some [\<lparr>name = Some ''Z'', symbol = None, country = None,
                     total_holdings = Some 5, total_entry_value_usd = None,
                     total_current_value_usd = Some 7, percentage_of_total_supply = None\<rparr>,
                    \<lparr>name = Some ''A'', symbol = None, country = None,
                     total_holdings = Some 1000, total_entry_value_usd = Some 30,
                     total_current_value_usd = Some 50, percentage_of_total_supply = None\<rparr>],
            data_total_holdings = None, total_value_usd = None\<rparr>)
     (Some \<lparr>companies =
              Some [\<lparr>name = Some ''Z'', symbol = None, country = None,
                     total_holdings = Some 2, total_entry_value_usd = Some 0,
                     total_current_value_usd = Some 3, percentage_of_total_supply = None\<rparr>],
            data_total_holdings = None, total_value_usd = None\<rparr>) =
   Inr [\<lparr>Company = ''A'', Company_Symbol = ''N/A'', Company_Country = ''Unknown'',
                BTC_Held = Num 1000, EntryUSD_BTC = Num 30, CurrentUSD_BTC = Num 50,
                ETH_Held = Num 0, EntryUSD_ETH = Num 0, CurrentUSD_ETH = Num 0,
                Total_Entry_Value = Num 30, Total_Current_Value = Num 50, Total_PnL = Num 20,
                Company_PnL = Num 20, Company_PnL_pct = Num (200 / 3)\<rparr>,
        \<lparr>Company = ''Z'', Company_Symbol = ''N/A'', Company_Country = ''Unknown'',
                BTC_Held = Num 5, EntryUSD_BTC = Num 0, CurrentUSD_BTC = Num 7,
                ETH_Held = Num 2, EntryUSD_ETH = Num 0, CurrentUSD_ETH = Num 3,
                Total_Entry_Value = Num 0, Total_Current_Value = Num 10, Total_PnL = Num 10,
                Company_PnL = Num 10, Company_PnL_pct = Num 0\<rparr>]"
  using pnl_percent_zero_guard
    [of "Some \<lparr>companies =
                  Some [\<lparr>name = Some ''Z'', symbol = None, country = None,
                         total_holdings = Some 5, total_entry_value_usd = None,
                         total_current_value_usd = Some 7, percentage_of_total_supply = None\<rparr>,
                        \<lparr>name = Some ''A'', symbol = None, country = None,
                         total_holdings = Some 1000, total_entry_value_usd = Some 30,
                         total_current_value_usd = Some 50, percentage_of_total_supply = None\<rparr>],
                data_total_holdings = None, total_value_usd = None\<rparr>"
        "Some \<lparr>companies =
                  Some [\<lparr>name = Some ''Z'', symbol = None, country = None,
                         total_holdings = Some 2, total_entry_value_usd = Some 0,
                         total_current_value_usd = Some 3, percentage_of_total_supply = None\<rparr>],
                data_total_holdings = None, total_value_usd = None\<rparr>"]
  by (simp add: display_combined_data_def process_treasury_data_def company_row_def dict_get_def
      add_pnl_def Let_def pnl_percent_def py_truediv_def truthy_def is_zero_def fillna0_def
      isna_def fsub_def fadd_def fneg_def fdiv_def fmul_def fl_val_def signed_zero_def negative_def
      sort_values_desc_def before_desc_def combine_def merge_outer_def matches_def join_key_def
      both_def left_only_def right_only_def fillna_row_def add_totals_def company_pnl_percent_def)

section \<open>A null entry value\<close>

lemma json_company_row_of_company: "json_company_row (json_of_company c) = company_row c"
  by (simp add: json_company_row_def json_of_company_def company_row_def frame_cell_def
      dict_get_def split: option.splits)

text \<open>On companies without \<^verbatim>\<open>null\<close> the two readings of the payload give the same table.\<close>

lemma process_json_companies_of_company:
  "companies d = Some cs \<Longrightarrow>
     process_json_companies (map json_of_company cs) = process_treasury_data (Some d)"
  by (simp add: process_json_companies_def process_frame_def process_treasury_data_def Let_def
      comp_def json_company_row_of_company)

lemma float_columns_of_company: "cs \<noteq> [] \<Longrightarrow> float_columns (map json_of_company cs)"
  by (cases cs)
    (auto simp: float_columns_def float_column_def json_of_company_def split: option.splits)

text \<open>
  The guard of \<^verbatim>\<open>PnL %\<close>, \<^verbatim>\<open>r['Entry Value'] and r['Entry Value'] != 0\<close>, lets NaN through:
  NaN is true in a condition and is not equal to 0. The division is made, and its
  result is NaN.
\<close>

lemma pnl_percent_nan: "pnl_percent pnl NaN = Inr NaN"
  by (simp add: pnl_percent_def truthy_def is_zero_def py_truediv_def fdiv_def fmul_def)

lemma add_pnl_null_entry:
  assumes "Entry_Value r = NaN"
  shows "\<exists>r'. add_pnl r = Inr r' \<and> columns r' = r \<and> PnL r' = Num 0 \<and> PnL_pct r' = NaN"
proof -
  have "fillna0 (fsub (Current_Value r) (Entry_Value r)) = Num 0"
    using assms by (simp add: fsub_def fadd_def fneg_def fillna0_def isna_def)
  then show ?thesis
    by (simp add: add_pnl_def Let_def assms pnl_percent_nan columns_def)
qed

text \<open>
  Claim C1 does not hold of the code where an entry value is absent as \<^verbatim>\<open>null\<close>. Two
  companies: A with holdings 10, the entry value \<^verbatim>\<open>null\<close> and the current value 20, and
  B with holdings 5, the entry value 10 and the current value 20. Every numeric column
  holds a number, so the frame's entry value of A is NaN. Its \<^verbatim>\<open>PnL\<close> is 0 (the
  difference is NaN, which \<^verbatim>\<open>fillna(0)\<close> replaces), and its \<^verbatim>\<open>PnL %\<close> is NaN, not 0:
  the guard does not stop NaN, and 0 / NaN * 100 is NaN. B has its 100 per cent.
\<close>

theorem null_entry_value_passes_guard:
  "float_columns
     [\<lparr>name_json = Some ''A'', symbol_json = Some ''AAA'', country_json = Some ''US'',
       total_holdings_json = Some (JNumber 10), total_entry_value_usd_json = Some JNull,
       total_current_value_usd_json = Some (JNumber 20),
       percentage_of_total_supply_json = Some (JNumber 1)\<rparr>,
      \<lparr>name_json = Some ''B'', symbol_json = Some ''BBB'', country_json = Some ''US'',
       total_holdings_json = Some (JNumber 5), total_entry_value_usd_json = Some (JNumber 10),
       total_current_value_usd_json = Some (JNumber 20),
       percentage_of_total_supply_json = Some (JNumber 2)\<rparr>] \<and>
   process_json_companies
     [\<lparr>name_json = Some ''A'', symbol_json = Some ''AAA'', country_json = Some ''US'',
       total_holdings_json = Some (JNumber 10), total_entry_value_usd_json = Some JNull,
       total_current_value_usd_json = Some (JNumber 20),
       percentage_of_total_supply_json = Some (JNumber 1)\<rparr>,
      \<lparr>name_json = Some ''B'', symbol_json = Some ''BBB'', country_json = Some ''US'',
       total_holdings_json = Some (JNumber 5), total_entry_value_usd_json = Some (JNumber 10),
       total_current_value_usd_json = Some (JNumber 20),
       percentage_of_total_supply_json = Some (JNumber 2)\<rparr>] =
   Inr [\<lparr>Name = ''A'', Symbol = ''AAA'', Country = ''US'', Total_Holdings = Num 10,
         Entry_Value = NaN, Current_Value = Num 20, Pct_of_Total_Supply = Num 1,
         PnL = Num 0, PnL_pct = NaN\<rparr>,
        \<lparr>Name = ''B'', Symbol = ''BBB'', Country = ''US'', Total_Holdings = Num 5,
         Entry_Value = Num 10, Current_Value = Num 20, Pct_of_Total_Supply = Num 2,
         PnL = Num 10, PnL_pct = Num 100\<rparr>] \<and>
   NaN \<noteq> Num 0"
  by (simp add: float_columns_def float_column_def process_json_companies_def process_frame_def
      json_company_row_def frame_cell_def dict_get_def add_pnl_def Let_def pnl_percent_def
      py_truediv_def truthy_def is_zero_def fillna0_def isna_def fsub_def fadd_def fneg_def
      fdiv_def fmul_def fl_val_def signed_zero_def negative_def sort_values_desc_def
      before_desc_def)

section \<open>Order of the rows\<close>

lemma before_desc_total: "\<not> before_desc a b \<Longrightarrow> before_desc b a"
  by (auto simp: before_desc_def)

lemma before_desc_trans: "before_desc a b \<Longrightarrow> before_desc b c \<Longrightarrow> before_desc a c"
  by (auto simp: before_desc_def)

lemma set_insert_desc: "set (insert_desc x ys) = insert x (set ys)"
  by (induction ys) auto

lemma sorted_insert_desc:
  assumes "sorted_wrt (\<lambda>r s. before_desc (Total_Holdings r) (Total_Holdings s)) ys"
  shows "sorted_wrt (\<lambda>r s. before_desc (Total_Holdings r) (Total_Holdings s)) (insert_desc x ys)"
  using assms
proof (induction ys)
  case Nil
  show ?case by simp
next
  case (Cons y ys)
  show ?case
  proof (cases "before_desc (Total_Holdings x) (Total_Holdings y)")
    case True
    with Cons.prems show ?thesis
      by (auto intro: before_desc_trans)
  next
    case False
    then have "before_desc (Total_Holdings y) (Total_Holdings x)"
      by (rule before_desc_total)
    with False Cons show ?thesis
      by (auto simp: set_insert_desc)
  qed
qed

text \<open>
  The part of the order that does not depend on the sorting algorithm: the normalised
  table is in descending order of the holdings, rows without a number last.
\<close>

lemma sort_values_desc_sorted:
  "sorted_wrt (\<lambda>r s. before_desc (Total_Holdings r) (Total_Holdings s)) (sort_values_desc rows)"
  unfolding sort_values_desc_def
  by (induction rows) (simp_all add: sorted_insert_desc)

lemma process_sorted:
  assumes "process_treasury_data data = Inr rows"
  shows "sorted_wrt (\<lambda>r s. fl_val (Total_Holdings s) \<le> fl_val (Total_Holdings r)) rows"
proof -
  have n: "\<forall>r\<in>set rows. Total_Holdings r \<noteq> NaN"
    using process_cells [OF assms] by fastforce
  have "\<exists>rows0. rows = sort_values_desc rows0"
  proof (cases data)
    case None
    with assms show ?thesis
      by (intro exI [of _ "[]"]) (simp add: process_no_companies sort_values_desc_def)
  next
    case (Some d)
    show ?thesis
    proof (cases "companies d")
      case None
      with Some assms show ?thesis
        by (intro exI [of _ "[]"]) (simp add: process_no_companies sort_values_desc_def)
    next
      case (Some cs)
      from process_companies [OF this] assms \<open>data = Some d\<close> show ?thesis by auto
    qed
  qed
  then have "sorted_wrt (\<lambda>r s. before_desc (Total_Holdings r) (Total_Holdings s)) rows"
    using sort_values_desc_sorted by blast
  then show ?thesis
    using n
  proof (induction rows)
    case Nil
    show ?case by simp
  next
    case (Cons r rows)
    then show ?case by (auto simp: before_desc_def)
  qed
qed

end
